theory Spec2Isabelle
  imports Complex_Main "HOL-Library.AList"
begin

section \<open>Python floats\<close>

text \<open>
  Prices, sizes and thresholds are Python floats: a finite number, one of the two
  infinities, or NaN.  The finite numbers are the reals: the rounding and the overflow of
  the arithmetic are left out and the two zeros are one value.  The comparisons are the
  ones of the source: every comparison with NaN is false, and an infinity is not below
  itself.
\<close>

datatype pyfloat = Fin real | PInf | NInf | NaN

fun flt :: "pyfloat \<Rightarrow> pyfloat \<Rightarrow> bool" where
  "flt (Fin a) (Fin b) = (a < b)"
| "flt (Fin a) PInf = True"
| "flt NInf (Fin b) = True"
| "flt NInf PInf = True"
| "flt _ _ = False"

fun fle :: "pyfloat \<Rightarrow> pyfloat \<Rightarrow> bool" where
  "fle (Fin a) (Fin b) = (a \<le> b)"
| "fle (Fin a) PInf = True"
| "fle NInf (Fin b) = True"
| "fle NInf PInf = True"
| "fle PInf PInf = True"
| "fle NInf NInf = True"
| "fle _ _ = False"

abbreviation fgt :: "pyfloat \<Rightarrow> pyfloat \<Rightarrow> bool" where
  "fgt x y \<equiv> flt y x"

abbreviation fge :: "pyfloat \<Rightarrow> pyfloat \<Rightarrow> bool" where
  "fge x y \<equiv> fle y x"

fun fneg :: "pyfloat \<Rightarrow> pyfloat" where
  "fneg (Fin a) = Fin (- a)"
| "fneg PInf = NInf"
| "fneg NInf = PInf"
| "fneg NaN = NaN"

fun fadd :: "pyfloat \<Rightarrow> pyfloat \<Rightarrow> pyfloat" where
  "fadd NaN _ = NaN"
| "fadd _ NaN = NaN"
| "fadd (Fin a) (Fin b) = Fin (a + b)"
| "fadd PInf NInf = NaN"
| "fadd NInf PInf = NaN"
| "fadd PInf _ = PInf"
| "fadd _ PInf = PInf"
| "fadd NInf _ = NInf"
| "fadd _ NInf = NInf"

definition fsub :: "pyfloat \<Rightarrow> pyfloat \<Rightarrow> pyfloat" where
  "fsub x y = fadd x (fneg y)"

fun fmul :: "pyfloat \<Rightarrow> pyfloat \<Rightarrow> pyfloat" where
  "fmul NaN _ = NaN"
| "fmul _ NaN = NaN"
| "fmul (Fin a) (Fin b) = Fin (a * b)"
| "fmul (Fin a) PInf = (if a = 0 then NaN else if 0 < a then PInf else NInf)"
| "fmul (Fin a) NInf = (if a = 0 then NaN else if 0 < a then NInf else PInf)"
| "fmul PInf (Fin b) = (if b = 0 then NaN else if 0 < b then PInf else NInf)"
| "fmul NInf (Fin b) = (if b = 0 then NaN else if 0 < b then NInf else PInf)"
| "fmul PInf PInf = PInf"
| "fmul PInf NInf = NInf"
| "fmul NInf PInf = NInf"
| "fmul NInf NInf = PInf"

text \<open>The quotient by a divisor that is not zero.\<close>

fun fdiv :: "pyfloat \<Rightarrow> pyfloat \<Rightarrow> pyfloat" where
  "fdiv NaN _ = NaN"
| "fdiv _ NaN = NaN"
| "fdiv (Fin a) (Fin b) = Fin (a / b)"
| "fdiv (Fin a) PInf = Fin 0"
| "fdiv (Fin a) NInf = Fin 0"
| "fdiv PInf (Fin b) = (if b < 0 then NInf else PInf)"
| "fdiv NInf (Fin b) = (if b < 0 then PInf else NInf)"
| "fdiv _ _ = NaN"

section \<open>Data models (src/models/data\_models.py)\<close>

text \<open>
  A \<open>datetime\<close> is the number of microseconds since the epoch, a \<open>timedelta\<close> a
  number of microseconds.  A \<open>dict\<close> keeps its insertion order, so a
  \<open>Dict[str, MarketData]\<close> is an association list in iteration order.
\<close>

type_synonym datetime = int

datatype error =
    ValueError string
  | ZeroDivisionError
  | KeyError string

text \<open>Python's \<open>x / y\<close> on floats: a zero divisor raises.\<close>

definition py_div :: "pyfloat \<Rightarrow> pyfloat \<Rightarrow> error + pyfloat" where
  "py_div x y = (if y = Fin 0 then Inl ZeroDivisionError else Inr (fdiv x y))"

record MarketData =
  symbol :: string
  exchange :: string
  bid_price :: pyfloat
  bid_size :: pyfloat
  ask_price :: pyfloat
  ask_size :: pyfloat
  last_price :: pyfloat
  timestamp :: datetime

text \<open>\<open>MarketData.__post_init__\<close>: the three checks, in the order of the source.\<close>

definition MarketData_post_init :: "MarketData \<Rightarrow> error + MarketData" where
  "MarketData_post_init d =
     (if fle (bid_price d) (Fin 0) \<or> fle (ask_price d) (Fin 0)
        then Inl (ValueError ''Prices must be positive'')
      else if fle (bid_size d) (Fin 0) \<or> fle (ask_size d) (Fin 0)
        then Inl (ValueError ''Sizes must be positive'')
      else if fge (bid_price d) (ask_price d)
        then Inl (ValueError ''Bid price must be less than ask price'')
      else Inr d)"

text \<open>
  A snapshot that exists has passed its constructor.  A NaN passes every check, and so
  does an infinite ask.
\<close>

definition valid_MarketData :: "MarketData \<Rightarrow> bool" where
  "valid_MarketData d \<longleftrightarrow> MarketData_post_init d = Inr d"

text \<open>\<open>MarketData.is_fresh\<close>, with the clock reading as a parameter.\<close>

definition is_fresh :: "MarketData \<Rightarrow> int \<Rightarrow> datetime \<Rightarrow> bool" where
  "is_fresh d max_age_seconds now \<longleftrightarrow> now - timestamp d \<le> max_age_seconds * 1000000"

record ArbitrageOpportunity =
  opp_symbol :: string
  buy_exchange :: string
  sell_exchange :: string
  buy_price :: pyfloat
  sell_price :: pyfloat
  spread_percentage :: pyfloat
  spread_absolute :: pyfloat
  opp_timestamp :: datetime
  estimated_profit :: "pyfloat option"
  trade_size :: "pyfloat option"

definition ArbitrageOpportunity_post_init ::
  "ArbitrageOpportunity \<Rightarrow> error + ArbitrageOpportunity" where
  "ArbitrageOpportunity_post_init p =
     (if fle (buy_price p) (Fin 0) \<or> fle (sell_price p) (Fin 0)
        then Inl (ValueError ''Prices must be positive'')
      else if fle (spread_percentage p) (Fin 0)
        then Inl (ValueError ''Spread percentage must be positive'')
      else Inr p)"

record ConsolidatedBBO =
  cbbo_symbol :: string
  best_bid_price :: pyfloat
  best_bid_exchange :: string
  best_ask_price :: pyfloat
  best_ask_exchange :: string
  mid_price :: pyfloat
  cbbo_timestamp :: datetime
  cbbo_spread_absolute :: pyfloat
  cbbo_spread_percentage :: pyfloat
  all_exchanges :: "string list"

text \<open>
  The constructor of \<open>ConsolidatedBBO\<close> with its \<open>__post_init__\<close>: the two derived
  fields are computed from the best prices; the division raises on a zero best bid.
\<close>

definition ConsolidatedBBO_init ::
  "string \<Rightarrow> pyfloat \<Rightarrow> string \<Rightarrow> pyfloat \<Rightarrow> string \<Rightarrow> pyfloat \<Rightarrow> datetime
     \<Rightarrow> string list \<Rightarrow> error + ConsolidatedBBO" where
  "ConsolidatedBBO_init symb bb bbe ba bae mid ts exs =
     (let spread_abs = fsub ba bb in
      case py_div spread_abs bb of
        Inl e \<Rightarrow> Inl e
      | Inr quot \<Rightarrow>
          Inr \<lparr> cbbo_symbol = symb, best_bid_price = bb, best_bid_exchange = bbe,
                best_ask_price = ba, best_ask_exchange = bae, mid_price = mid,
                cbbo_timestamp = ts, cbbo_spread_absolute = spread_abs,
                cbbo_spread_percentage = fmul quot (Fin 100), all_exchanges = exs \<rparr>)"

subsection \<open>\<open>consolidate_bbo\<close>\<close>

text \<open>
  The local variables of the loop: the best bid starts as \<open>0\<close>, the best ask as
  \<open>float('inf')\<close>, both exchanges as the empty string.
\<close>

record bbo_acc =
  acc_bid_price :: pyfloat
  acc_bid_exchange :: string
  acc_ask_price :: pyfloat
  acc_ask_exchange :: string
  acc_all_exchanges :: "string list"

definition bbo_init :: bbo_acc where
  "bbo_init = \<lparr> acc_bid_price = Fin 0, acc_bid_exchange = [], acc_ask_price = PInf,
                acc_ask_exchange = [], acc_all_exchanges = [] \<rparr>"

definition bbo_step :: "string \<times> MarketData \<Rightarrow> bbo_acc \<Rightarrow> bbo_acc" where
  "bbo_step item acc =
     (let exch = fst item; d = snd item;
          acc1 = acc\<lparr> acc_all_exchanges := acc_all_exchanges acc @ [exch] \<rparr>;
          acc2 = (if fgt (bid_price d) (acc_bid_price acc1)
                  then acc1\<lparr> acc_bid_price := bid_price d, acc_bid_exchange := exch \<rparr>
                  else acc1)
      in if flt (ask_price d) (acc_ask_price acc2)
         then acc2\<lparr> acc_ask_price := ask_price d, acc_ask_exchange := exch \<rparr>
         else acc2)"

fun bbo_loop :: "(string \<times> MarketData) list \<Rightarrow> bbo_acc \<Rightarrow> bbo_acc" where
  "bbo_loop [] acc = acc"
| "bbo_loop (item # items) acc = bbo_loop items (bbo_step item acc)"

text \<open>\<open>consolidate_bbo\<close>.  \<open>now\<close> is the reading of \<open>datetime.utcnow()\<close>.\<close>

definition consolidate_bbo ::
  "string \<Rightarrow> (string \<times> MarketData) list \<Rightarrow> datetime \<Rightarrow> error + ConsolidatedBBO" where
  "consolidate_bbo symb market_data now =
     (if market_data = [] then Inl (ValueError ''Market data cannot be empty'')
      else
        let acc = bbo_loop market_data bbo_init in
        case py_div (fadd (acc_bid_price acc) (acc_ask_price acc)) (Fin 2) of
          Inl e \<Rightarrow> Inl e
        | Inr mid \<Rightarrow>
            ConsolidatedBBO_init symb (acc_bid_price acc) (acc_bid_exchange acc)
              (acc_ask_price acc) (acc_ask_exchange acc) mid now (acc_all_exchanges acc))"

subsection \<open>\<open>find_arbitrage_opportunities\<close>\<close>

text \<open>
  The body of the inner loop for one pair: \<open>buy_exchange\<close> is the exchange of the outer
  loop, \<open>sell_exchange\<close> the one of the inner loop.  \<open>None\<close>: nothing is appended.
\<close>

definition check_pair ::
  "(string \<times> MarketData) list \<Rightarrow> pyfloat \<Rightarrow> datetime \<Rightarrow> string \<Rightarrow> string
     \<Rightarrow> error + ArbitrageOpportunity option" where
  "check_pair market_data threshold_percentage now buy_exch sell_exch =
     (case map_of market_data buy_exch of
        None \<Rightarrow> Inl (KeyError buy_exch)
      | Some buy_data \<Rightarrow>
     (case map_of market_data sell_exch of
        None \<Rightarrow> Inl (KeyError sell_exch)
      | Some sell_data \<Rightarrow>
        if flt (ask_price sell_data) (bid_price buy_data) then
          let spread_abs = fsub (bid_price buy_data) (ask_price sell_data) in
          case py_div spread_abs (ask_price sell_data) of
            Inl e \<Rightarrow> Inl e
          | Inr quot \<Rightarrow>
            let spread_pct = fmul quot (Fin 100) in
            if fge spread_pct threshold_percentage then
              (case ArbitrageOpportunity_post_init
                      \<lparr> opp_symbol = symbol buy_data,
                        buy_exchange = sell_exch,
                        sell_exchange = buy_exch,
                        buy_price = ask_price sell_data,
                        sell_price = bid_price buy_data,
                        spread_percentage = spread_pct,
                        spread_absolute = spread_abs,
                        opp_timestamp = now,
                        estimated_profit = None,
                        trade_size = None \<rparr> of
                 Inl e \<Rightarrow> Inl e
               | Inr opp \<Rightarrow> Inr (Some opp))
            else Inr None
        else Inr None))"

fun arb_inner ::
  "(string \<times> MarketData) list \<Rightarrow> pyfloat \<Rightarrow> datetime \<Rightarrow> string \<Rightarrow> string list
     \<Rightarrow> ArbitrageOpportunity list \<Rightarrow> error + ArbitrageOpportunity list" where
  "arb_inner market_data th now buy_exch [] opportunities = Inr opportunities"
| "arb_inner market_data th now buy_exch (sell_exch # rest) opportunities =
     (case check_pair market_data th now buy_exch sell_exch of
        Inl e \<Rightarrow> Inl e
      | Inr None \<Rightarrow> arb_inner market_data th now buy_exch rest opportunities
      | Inr (Some opp) \<Rightarrow> arb_inner market_data th now buy_exch rest (opportunities @ [opp]))"

fun arb_outer ::
  "(string \<times> MarketData) list \<Rightarrow> pyfloat \<Rightarrow> datetime \<Rightarrow> string list
     \<Rightarrow> ArbitrageOpportunity list \<Rightarrow> error + ArbitrageOpportunity list" where
  "arb_outer market_data th now [] opportunities = Inr opportunities"
| "arb_outer market_data th now (buy_exch # rest) opportunities =
     (case arb_inner market_data th now buy_exch rest opportunities of
        Inl e \<Rightarrow> Inl e
      | Inr opportunities' \<Rightarrow> arb_outer market_data th now rest opportunities')"

definition find_arbitrage_opportunities ::
  "(string \<times> MarketData) list \<Rightarrow> pyfloat \<Rightarrow> datetime
     \<Rightarrow> error + ArbitrageOpportunity list" where
  "find_arbitrage_opportunities market_data threshold_percentage now =
     (let exchanges = map fst market_data
      in arb_outer market_data threshold_percentage now exchanges [])"

subsection \<open>The snapshots of the examples\<close>

definition ex_binance :: MarketData where
  "ex_binance = \<lparr> symbol = ''BTC/USDT'', exchange = ''binance'', bid_price = Fin 50000,
      bid_size = Fin 1, ask_price = Fin 50001, ask_size = Fin 1, last_price = Fin 50000.5,
      timestamp = 0 \<rparr>"

definition ex_okx_low :: MarketData where
  "ex_okx_low = \<lparr> symbol = ''BTC/USDT'', exchange = ''okx'', bid_price = Fin 49999,
      bid_size = Fin 1, ask_price = Fin 50000.5, ask_size = Fin 1, last_price = Fin 49999.75,
      timestamp = 0 \<rparr>"

definition ex_okx_high :: MarketData where
  "ex_okx_high = \<lparr> symbol = ''BTC/USDT'', exchange = ''okx'', bid_price = Fin 50050,
      bid_size = Fin 1, ask_price = Fin 50051, ask_size = Fin 1, last_price = Fin 50050.5,
      timestamp = 0 \<rparr>"

text \<open>A snapshot without a seller and one without a readable bid; both pass the constructor.\<close>

definition ex_no_ask :: MarketData where
  "ex_no_ask = \<lparr> symbol = ''BTC/USDT'', exchange = ''binance'', bid_price = Fin 1,
      bid_size = Fin 1, ask_price = PInf, ask_size = Fin 1, last_price = Fin 1,
      timestamp = 0 \<rparr>"

definition ex_nan_bid :: MarketData where
  "ex_nan_bid = \<lparr> symbol = ''BTC/USDT'', exchange = ''binance'', bid_price = NaN,
      bid_size = Fin 1, ask_price = Fin 50001, ask_size = Fin 1, last_price = Fin 50000,
      timestamp = 0 \<rparr>"

subsection \<open>The scan as the specification words it\<close>

text \<open>
  These four definitions follow the words of the specification, not the code: a pair
  (\<open>i\<close> across all exchanges, \<open>j\<close> after \<open>i\<close>) is crossed when the ask of \<open>j\<close> is below
  the bid of \<open>i\<close> and the spread, as a percentage of that ask, reaches the threshold; its
  signal buys at \<open>j\<close> and sells at \<open>i\<close>.  They are compared with
  \<open>find_arbitrage_opportunities\<close> below.
\<close>

definition spec_crossed ::
  "string \<times> MarketData \<Rightarrow> string \<times> MarketData \<Rightarrow> pyfloat \<Rightarrow> bool" where
  "spec_crossed si sj threshold \<longleftrightarrow>
     flt (ask_price (snd sj)) (bid_price (snd si)) \<and>
     fge (fmul (fdiv (fsub (bid_price (snd si)) (ask_price (snd sj))) (ask_price (snd sj)))
            (Fin 100))
         threshold"

definition spec_signal ::
  "string \<times> MarketData \<Rightarrow> string \<times> MarketData \<Rightarrow> datetime \<Rightarrow> ArbitrageOpportunity" where
  "spec_signal si sj now =
     \<lparr> opp_symbol = symbol (snd si),
       buy_exchange = fst sj,
       sell_exchange = fst si,
       buy_price = ask_price (snd sj),
       sell_price = bid_price (snd si),
       spread_percentage =
         fmul (fdiv (fsub (bid_price (snd si)) (ask_price (snd sj))) (ask_price (snd sj)))
           (Fin 100),
       spread_absolute = fsub (bid_price (snd si)) (ask_price (snd sj)),
       opp_timestamp = now,
       estimated_profit = None,
       trade_size = None \<rparr>"

definition spec_row ::
  "string \<times> MarketData \<Rightarrow> (string \<times> MarketData) list \<Rightarrow> pyfloat \<Rightarrow> datetime
     \<Rightarrow> ArbitrageOpportunity list" where
  "spec_row si later threshold now =
     concat (map (\<lambda>sj. if spec_crossed si sj threshold then [spec_signal si sj now] else [])
               later)"

definition spec_scan ::
  "(string \<times> MarketData) list \<Rightarrow> pyfloat \<Rightarrow> datetime \<Rightarrow> ArbitrageOpportunity list" where
  "spec_scan snapshots threshold now =
     concat (map (\<lambda>i. concat (map (\<lambda>j.
         if spec_crossed (snapshots ! i) (snapshots ! j) threshold
         then [spec_signal (snapshots ! i) (snapshots ! j) now] else [])
       [Suc i ..< length snapshots])) [0 ..< length snapshots])"

section \<open>The stream client (src/data/websocket\_client.py)\<close>

text \<open>
  A callback is a Python callable; only its identity and the fact that it was invoked
  matter here, so it is a number and every invocation is appended to the log
  \<open>delivered\<close>.  The dictionaries keep their insertion order: the reconnection
  iterates over the keys.
\<close>

type_synonym callback = nat

datatype socket = NoSocket | SocketOpen | SocketClosed

text \<open>
  The task created by \<open>_start_polling\<close> for one key.  It is finished once its loop has
  left or it was cancelled; the dictionary entry stays until \<open>unsubscribe\<close> deletes it.
\<close>

record poll_task =
  task_exchange :: string
  task_symbol :: string
  task_finished :: bool

record WebSocketClient =
  reconnect_delay :: nat
  max_reconnect_attempts :: nat
  websocket :: socket
  is_connected :: bool
  is_running :: bool
  reconnect_count :: nat
  subscriptions :: "(string \<times> callback list) list"
  use_polling :: bool
  polling_tasks :: "(string \<times> poll_task) list"
  sent_messages :: "(string \<times> string \<times> string) list"
  slept :: "nat list"
  delivered :: "(callback \<times> MarketData) list"

definition subscription_key :: "string \<Rightarrow> string \<Rightarrow> string" where
  "subscription_key exch symb = exch @ '':'' @ symb"

text \<open>\<open>connect\<close>; \<open>ok\<close> tells whether \<open>websockets.connect\<close> succeeds.\<close>

definition connect :: "WebSocketClient \<Rightarrow> bool \<Rightarrow> bool \<times> WebSocketClient" where
  "connect ws ok =
     (if ok
      then (True, ws\<lparr> websocket := SocketOpen, is_connected := True, reconnect_count := 0,
                       use_polling := False \<rparr>)
      else (True, ws\<lparr> use_polling := True \<rparr>))"

definition send_subscription_message ::
  "WebSocketClient \<Rightarrow> string \<Rightarrow> string \<Rightarrow> WebSocketClient" where
  "send_subscription_message ws exch symb =
     (if websocket ws \<noteq> SocketOpen then ws
      else ws\<lparr> sent_messages := sent_messages ws @ [(''subscribe'', exch, symb)] \<rparr>)"

definition start_polling :: "WebSocketClient \<Rightarrow> string \<Rightarrow> string \<Rightarrow> WebSocketClient" where
  "start_polling ws exch symb =
     (let key = subscription_key exch symb in
      if map_of (polling_tasks ws) key \<noteq> None then ws
      else ws\<lparr> polling_tasks :=
                  AList.update key
                    \<lparr> task_exchange = exch, task_symbol = symb, task_finished = False \<rparr>
                    (polling_tasks ws) \<rparr>)"

definition subscribe ::
  "WebSocketClient \<Rightarrow> string \<Rightarrow> string \<Rightarrow> callback \<Rightarrow> WebSocketClient" where
  "subscribe ws exch symb cb =
     (let key = subscription_key exch symb;
          subs0 = (if map_of (subscriptions ws) key = None
                   then AList.update key [] (subscriptions ws)
                   else subscriptions ws);
          subs1 = (case map_of subs0 key of
                     None \<Rightarrow> subs0
                   | Some cbs \<Rightarrow> AList.update key (cbs @ [cb]) subs0);
          ws1 = ws\<lparr> subscriptions := subs1 \<rparr>
      in if use_polling ws1 then start_polling ws1 exch symb
         else send_subscription_message ws1 exch symb)"

definition unsubscribe :: "WebSocketClient \<Rightarrow> string \<Rightarrow> string \<Rightarrow> WebSocketClient" where
  "unsubscribe ws exch symb =
     (let key = subscription_key exch symb in
      if map_of (subscriptions ws) key \<noteq> None then
        let ws1 = ws\<lparr> subscriptions := AList.delete key (subscriptions ws) \<rparr> in
        if map_of (polling_tasks ws1) key \<noteq> None
        then ws1\<lparr> polling_tasks := AList.delete key (polling_tasks ws1) \<rparr>
        else ws1
      else ws)"

definition notify_callbacks :: "WebSocketClient \<Rightarrow> string \<Rightarrow> MarketData \<Rightarrow> WebSocketClient" where
  "notify_callbacks ws key market_data =
     (case map_of (subscriptions ws) key of
        None \<Rightarrow> ws
      | Some callbacks \<Rightarrow>
          ws\<lparr> delivered := delivered ws @ map (\<lambda>cb. (cb, market_data)) callbacks \<rparr>)"

text \<open>
  One turn of the loop of \<open>poll_worker\<close> for the task stored under \<open>key\<close>; \<open>fetched\<close> is
  what \<open>get_ticker\<close> gives, \<open>None\<close> when it raises.  Without a live task under the key
  nothing runs.
\<close>

definition poll_worker_step ::
  "WebSocketClient \<Rightarrow> string \<Rightarrow> MarketData option \<Rightarrow> WebSocketClient" where
  "poll_worker_step ws key fetched =
     (case map_of (polling_tasks ws) key of
        None \<Rightarrow> ws
      | Some task \<Rightarrow>
          if task_finished task then ws
          else if is_running ws \<and> map_of (subscriptions ws) key \<noteq> None then
            (case fetched of
               None \<Rightarrow> ws
             | Some market_data \<Rightarrow>
                 notify_callbacks ws
                   (subscription_key (task_exchange task) (task_symbol task)) market_data)
          else ws\<lparr> polling_tasks :=
                      AList.update key (task\<lparr> task_finished := True \<rparr>) (polling_tasks ws) \<rparr>)"

text \<open>
  \<open>_handle_websocket_message\<close>; \<open>parsed\<close> is the result of \<open>_parse_websocket_data\<close>,
  \<open>None\<close> for a message that does not parse.
\<close>

definition handle_websocket_message ::
  "WebSocketClient \<Rightarrow> MarketData option \<Rightarrow> WebSocketClient" where
  "handle_websocket_message ws parsed =
     (case parsed of
        None \<Rightarrow> ws
      | Some market_data \<Rightarrow>
          notify_callbacks ws
            (subscription_key (exchange market_data) (symbol market_data)) market_data)"

text \<open>Python's \<open>str.split(':')\<close>.\<close>

fun split_colon :: "string \<Rightarrow> string \<Rightarrow> string list" where
  "split_colon [] cur = [cur]"
| "split_colon (c # cs) cur =
     (if c = CHR '':'' then cur # split_colon cs [] else split_colon cs (cur @ [c]))"

text \<open>
  The loop of \<open>_reconnect\<close> over the keys: a key that does not split into exactly two
  parts raises \<open>ValueError\<close> at the unpacking, and the messages sent so far stay sent.
\<close>

fun resubscribe ::
  "WebSocketClient \<Rightarrow> string list \<Rightarrow> error option \<times> WebSocketClient" where
  "resubscribe ws [] = (None, ws)"
| "resubscribe ws (key # keys) =
     (case split_colon key [] of
        [exch, symb] \<Rightarrow> resubscribe (send_subscription_message ws exch symb) keys
      | _ \<Rightarrow> (Some (ValueError ''unpack''), ws))"

text \<open>\<open>_reconnect\<close>; \<open>ok\<close> tells whether the new connection attempt succeeds.\<close>

definition reconnect :: "WebSocketClient \<Rightarrow> bool \<Rightarrow> error option \<times> WebSocketClient" where
  "reconnect ws ok =
     (if reconnect_count ws \<ge> max_reconnect_attempts ws
      then (None, ws\<lparr> use_polling := True, is_running := True \<rparr>)
      else
        let ws1 = ws\<lparr> reconnect_count := reconnect_count ws + 1 \<rparr>;
            delay = reconnect_delay ws1 * 2 ^ (reconnect_count ws1 - 1);
            ws2 = ws1\<lparr> slept := slept ws1 @ [delay] \<rparr>;
            (connected, ws3) = connect ws2 ok
        in if connected then resubscribe ws3 (map fst (subscriptions ws3))
           else (None, ws3))"

text \<open>\<open>disconnect\<close>: the polling tasks are cancelled but stay in the dictionary.\<close>

definition disconnect :: "WebSocketClient \<Rightarrow> WebSocketClient" where
  "disconnect ws =
     ws\<lparr> is_running := False,
         polling_tasks := map (\<lambda>(k, t). (k, t\<lparr> task_finished := True \<rparr>)) (polling_tasks ws),
         websocket := (if websocket ws = SocketOpen then SocketClosed else websocket ws),
         is_connected := False \<rparr>"

subsection \<open>\<open>DataStreamManager\<close>\<close>

record stream_info =
  stream_exchange :: string
  stream_symbol :: string
  stream_callback :: callback
  started_at :: datetime

record DataStreamManager =
  websocket_client :: WebSocketClient
  active_streams :: "(string \<times> stream_info) list"

definition subscribe_to_market_data ::
  "DataStreamManager \<Rightarrow> string \<Rightarrow> string \<Rightarrow> callback \<Rightarrow> datetime \<Rightarrow> DataStreamManager" where
  "subscribe_to_market_data dsm exch symb cb now =
     (let stream_key = subscription_key exch symb;
          dsm1 = dsm\<lparr> websocket_client := subscribe (websocket_client dsm) exch symb cb \<rparr>
      in dsm1\<lparr> active_streams :=
                  AList.update stream_key
                    \<lparr> stream_exchange = exch, stream_symbol = symb, stream_callback = cb,
                      started_at = now \<rparr>
                    (active_streams dsm1) \<rparr>)"

definition unsubscribe_from_market_data ::
  "DataStreamManager \<Rightarrow> string \<Rightarrow> string \<Rightarrow> DataStreamManager" where
  "unsubscribe_from_market_data dsm exch symb =
     (let stream_key = subscription_key exch symb;
          dsm1 = dsm\<lparr> websocket_client := unsubscribe (websocket_client dsm) exch symb \<rparr>
      in if map_of (active_streams dsm1) stream_key \<noteq> None
         then dsm1\<lparr> active_streams := AList.delete stream_key (active_streams dsm1) \<rparr>
         else dsm1)"

section \<open>The arbitrage service (src/services/arbitrage\_service.py)\<close>

record MonitoringConfig =
  chat_id :: int
  symbols :: "string list"
  exchanges :: "string list"
  threshold_percentage :: pyfloat
  cfg_is_active :: bool
  update_interval :: int
  created_at :: datetime
  last_update :: "datetime option"

text \<open>
  The task created by \<open>start_monitoring\<close>: the arguments of its \<open>_monitoring_loop\<close>.
\<close>

record monitoring_task =
  loop_chat_id :: int
  loop_config :: MonitoringConfig

text \<open>
  The service.  \<open>alerts\<close> is the log of the calls of the notification callbacks: which
  callback, for which chat, with which opportunity.
\<close>

record ArbitrageService =
  data_stream_manager :: DataStreamManager
  monitoring_sessions :: "(int \<times> MonitoringConfig) list"
  active_monitoring_tasks :: "(int \<times> monitoring_task) list"
  market_data_cache :: "(string \<times> (string \<times> MarketData) list) list"
  opportunity_history :: "ArbitrageOpportunity list"
  alert_cooldowns :: "(string \<times> datetime) list"
  alert_cooldown_minutes :: int
  notification_callbacks :: "callback list"
  alerts :: "(callback \<times> int \<times> ArbitrageOpportunity) list"

text \<open>The bound method \<open>self._market_data_callback\<close> of the service, as a callback.\<close>

definition market_data_callback_id :: callback where
  "market_data_callback_id = 0"

text \<open>\<open>_market_data_callback\<close>: the snapshot replaces the one of its symbol and exchange.\<close>

definition market_data_callback :: "ArbitrageService \<Rightarrow> MarketData \<Rightarrow> ArbitrageService" where
  "market_data_callback svc market_data =
     (let cache0 = (if map_of (market_data_cache svc) (symbol market_data) = None
                    then AList.update (symbol market_data) [] (market_data_cache svc)
                    else market_data_cache svc)
      in case map_of cache0 (symbol market_data) of
           None \<Rightarrow> svc\<lparr> market_data_cache := cache0 \<rparr>
         | Some by_exchange \<Rightarrow>
             svc\<lparr> market_data_cache :=
                    AList.update (symbol market_data)
                      (AList.update (exchange market_data) market_data by_exchange) cache0 \<rparr>)"

text \<open>The two nested loops of \<open>_subscribe_to_symbols\<close> and \<open>_unsubscribe_from_symbols\<close>.\<close>

definition subscribe_to_symbols ::
  "DataStreamManager \<Rightarrow> MonitoringConfig \<Rightarrow> datetime \<Rightarrow> DataStreamManager" where
  "subscribe_to_symbols dsm cfg now =
     fold (\<lambda>symb dsm1.
        fold (\<lambda>exch dsm2. subscribe_to_market_data dsm2 exch symb market_data_callback_id now)
          (exchanges cfg) dsm1)
       (symbols cfg) dsm"

definition unsubscribe_from_symbols ::
  "DataStreamManager \<Rightarrow> MonitoringConfig \<Rightarrow> DataStreamManager" where
  "unsubscribe_from_symbols dsm cfg =
     fold (\<lambda>symb dsm1.
        fold (\<lambda>exch dsm2. unsubscribe_from_market_data dsm2 exch symb) (exchanges cfg) dsm1)
       (symbols cfg) dsm"

definition start_monitoring ::
  "ArbitrageService \<Rightarrow> MonitoringConfig \<Rightarrow> datetime \<Rightarrow> ArbitrageService" where
  "start_monitoring svc monitoring_config now =
     (let cid = chat_id monitoring_config in
      if map_of (monitoring_sessions svc) cid \<noteq> None then
        svc\<lparr> monitoring_sessions :=
               AList.update cid monitoring_config (monitoring_sessions svc) \<rparr>
      else
        let svc1 = svc\<lparr> monitoring_sessions :=
                           AList.update cid monitoring_config (monitoring_sessions svc) \<rparr>;
            task = \<lparr> loop_chat_id = cid, loop_config = monitoring_config \<rparr>;
            svc2 = svc1\<lparr> active_monitoring_tasks :=
                            AList.update cid task (active_monitoring_tasks svc1) \<rparr>
        in svc2\<lparr> data_stream_manager :=
                    subscribe_to_symbols (data_stream_manager svc2) monitoring_config now \<rparr>)"

definition stop_monitoring :: "ArbitrageService \<Rightarrow> int \<Rightarrow> ArbitrageService" where
  "stop_monitoring svc cid =
     (case map_of (monitoring_sessions svc) cid of
        None \<Rightarrow> svc
      | Some monitoring_config \<Rightarrow>
          let svc1 = (if map_of (active_monitoring_tasks svc) cid \<noteq> None
                      then svc\<lparr> active_monitoring_tasks :=
                                   AList.delete cid (active_monitoring_tasks svc) \<rparr>
                      else svc);
              svc2 = svc1\<lparr> data_stream_manager :=
                              unsubscribe_from_symbols (data_stream_manager svc1)
                                monitoring_config \<rparr>
          in svc2\<lparr> monitoring_sessions := AList.delete cid (monitoring_sessions svc2) \<rparr>)"

subsection \<open>The scan of one session\<close>

text \<open>
  The body of the loop of \<open>_check_arbitrage_opportunities\<close> for one symbol: what the
  symbol adds to the result.  An exception of the scan is caught and logged, and the
  symbol adds nothing.
\<close>

definition check_symbol ::
  "ArbitrageService \<Rightarrow> MonitoringConfig \<Rightarrow> datetime \<Rightarrow> string \<Rightarrow> ArbitrageOpportunity list" where
  "check_symbol svc cfg now symb =
     (let symbol_data = (case map_of (market_data_cache svc) symb of
                           None \<Rightarrow> [] | Some by_exchange \<Rightarrow> by_exchange);
          filtered_data = filter (\<lambda>item. fst item \<in> set (exchanges cfg)) symbol_data
      in if length filtered_data < 2 then []
         else
           let fresh_data = filter (\<lambda>item. is_fresh (snd item) 60 now) filtered_data
           in if length fresh_data < 2 then []
              else (case find_arbitrage_opportunities fresh_data (threshold_percentage cfg) now of
                      Inl e \<Rightarrow> []
                    | Inr symbol_opportunities \<Rightarrow> symbol_opportunities))"

definition check_arbitrage_opportunities ::
  "ArbitrageService \<Rightarrow> MonitoringConfig \<Rightarrow> datetime \<Rightarrow> ArbitrageOpportunity list" where
  "check_arbitrage_opportunities svc cfg now =
     concat (map (check_symbol svc cfg now) (symbols cfg))"

subsection \<open>Alerts and their cooldown\<close>

definition opportunity_key :: "ArbitrageOpportunity \<Rightarrow> string" where
  "opportunity_key opp =
     opp_symbol opp @ '':'' @ buy_exchange opp @ '':'' @ sell_exchange opp"

text \<open>\<open>timedelta(minutes=m)\<close> in microseconds.\<close>

definition timedelta_minutes :: "int \<Rightarrow> int" where
  "timedelta_minutes m = m * 60 * 1000000"

text \<open>\<open>_is_alert_cooldown_active\<close>; \<open>now\<close> is its reading of the clock.\<close>

definition is_alert_cooldown_active :: "ArbitrageService \<Rightarrow> string \<Rightarrow> datetime \<Rightarrow> bool" where
  "is_alert_cooldown_active svc key now =
     (case map_of (alert_cooldowns svc) key of
        None \<Rightarrow> False
      | Some last_alert_time \<Rightarrow>
          now < last_alert_time + timedelta_minutes (alert_cooldown_minutes svc))"

definition send_opportunity_alert ::
  "ArbitrageService \<Rightarrow> int \<Rightarrow> ArbitrageOpportunity \<Rightarrow> ArbitrageService" where
  "send_opportunity_alert svc cid opp =
     svc\<lparr> alerts := alerts svc @ map (\<lambda>cb. (cb, cid, opp)) (notification_callbacks svc) \<rparr>"

text \<open>
  \<open>_process_opportunity\<close>.  The clock is read twice: \<open>now_check\<close> in the cooldown test,
  \<open>now_fire\<close> when the firing time is stored.
\<close>

definition process_opportunity ::
  "ArbitrageService \<Rightarrow> int \<Rightarrow> ArbitrageOpportunity \<Rightarrow> datetime \<Rightarrow> datetime \<Rightarrow> ArbitrageService" where
  "process_opportunity svc cid opp now_check now_fire =
     (let key = opportunity_key opp in
      if is_alert_cooldown_active svc key now_check then svc
      else
        let svc1 = svc\<lparr> opportunity_history := opportunity_history svc @ [opp] \<rparr>;
            svc2 = svc1\<lparr> alert_cooldowns := AList.update key now_fire (alert_cooldowns svc1) \<rparr>
        in send_opportunity_alert svc2 cid opp)"

text \<open>
  Successive calls of \<open>_process_opportunity\<close>, as the monitoring loops of the
  sessions make them: each with its chat, its opportunity and its two clock readings.
\<close>

fun process_all ::
  "ArbitrageService \<Rightarrow> (int \<times> ArbitrageOpportunity \<times> datetime \<times> datetime) list
     \<Rightarrow> ArbitrageService" where
  "process_all svc [] = svc"
| "process_all svc ((cid, opp, now_check, now_fire) # calls) =
     process_all (process_opportunity svc cid opp now_check now_fire) calls"

section \<open>The market view loop (src/services/market\_view\_service.py)\<close>

text \<open>
  The part of one turn of \<open>_market_view_loop\<close> that decides whether a quote is
  computed: \<open>None\<close> when the turn computes none, otherwise the result of
  \<open>consolidate_bbo\<close> on the fresh snapshots of the session's exchanges.
\<close>

definition market_view_loop_cbbo ::
  "(string \<times> (string \<times> MarketData) list) list \<Rightarrow> string \<Rightarrow> string list \<Rightarrow> int \<Rightarrow> datetime
     \<Rightarrow> (error + ConsolidatedBBO) option" where
  "market_view_loop_cbbo cache symb exchs interval now =
     (let symbol_data = (case map_of cache symb of None \<Rightarrow> [] | Some by_exchange \<Rightarrow> by_exchange);
          filtered_data = filter (\<lambda>item. fst item \<in> set exchs) symbol_data;
          fresh_data = filter (\<lambda>item. is_fresh (snd item) (interval * 2) now) filtered_data
      in if length fresh_data \<ge> 2 then Some (consolidate_bbo symb fresh_data now) else None)"

section \<open>The market data client (src/data/gomarket\_client.py)\<close>

text \<open>
  The exceptions that \<open>_make_request\<close> meets, each with the text that \<open>str\<close> gives.
  \<open>RateLimitError\<close> is a subclass of \<open>GoMarketAPIError\<close>; \<open>ClientError\<close> is
  \<open>aiohttp.ClientError\<close>; \<open>OtherException\<close> is any other \<open>Exception\<close>.
\<close>

datatype exn =
    RateLimitError string
  | GoMarketAPIError string
  | ClientError string
  | OtherException string

fun exn_str :: "exn \<Rightarrow> string" where
  "exn_str (RateLimitError m) = m"
| "exn_str (GoMarketAPIError m) = m"
| "exn_str (ClientError m) = m"
| "exn_str (OtherException m) = m"

text \<open>
  The header \<open>Retry-After\<close> of a response: absent, a text that \<open>int\<close> reads as a number,
  or a text on which \<open>int\<close> raises \<open>ValueError\<close> (with the text of that error).
\<close>

datatype retry_after_header = NoHeader | IntHeader int | BadHeader string

text \<open>The body of a response: the value \<open>response.json()\<close> returns, or the error it raises.\<close>

datatype response_body = JsonBody string | InvalidBody string

record http_response =
  status :: nat
  retry_after :: retry_after_header
  body_text :: string
  body :: response_body

datatype transport_result = Raises_ClientError string | Response http_response

text \<open>
  What one attempt meets: the two readings of \<open>time.time()\<close> in \<open>_rate_limit\<close> and what
  \<open>session.request\<close> does.
\<close>

record attempt =
  clock_first :: real
  clock_second :: real
  transport :: transport_result

text \<open>
  The client: \<open>client_slept\<close> logs the arguments of \<open>asyncio.sleep\<close>, \<open>requests_made\<close>
  counts the calls of \<open>session.request\<close>.
\<close>

record GoMarketClient =
  rate_limit_delay :: real
  last_request_time :: real
  retry_attempts :: nat
  client_slept :: "real list"
  requests_made :: nat

definition rate_limit :: "GoMarketClient \<Rightarrow> real \<Rightarrow> real \<Rightarrow> GoMarketClient" where
  "rate_limit c current_time time_after =
     (let time_since_last = current_time - last_request_time c;
          c1 = (if time_since_last < rate_limit_delay c
                then c\<lparr> client_slept := client_slept c @ [rate_limit_delay c - time_since_last] \<rparr>
                else c)
      in c1\<lparr> last_request_time := time_after \<rparr>)"

text \<open>Decimal digits of a number, as an f-string prints it.\<close>

fun str_nat :: "nat \<Rightarrow> string" where
  "str_nat n = (if n < 10 then [''0123456789'' ! n]
                else str_nat (n div 10) @ [''0123456789'' ! (n mod 10)])"

text \<open>
  The statements under \<open>async with\<close>, before any handler: the exception they raise, or
  the data they return.
\<close>

definition handle_response :: "GoMarketClient \<Rightarrow> http_response \<Rightarrow> (exn + string) \<times> GoMarketClient" where
  "handle_response c response =
     (if status response = 429 then
        (case retry_after response of
           BadHeader m \<Rightarrow> (Inl (OtherException m), c)
         | NoHeader \<Rightarrow>
             (Inl (RateLimitError ''Rate limit exceeded''),
              c\<lparr> client_slept := client_slept c @ [60] \<rparr>)
         | IntHeader n \<Rightarrow>
             (Inl (RateLimitError ''Rate limit exceeded''),
              c\<lparr> client_slept := client_slept c @ [real_of_int n] \<rparr>))
      else if status response \<ge> 400 then
        (Inl (GoMarketAPIError (''HTTP '' @ str_nat (status response) @ '': '' @ body_text response)), c)
      else
        (case body response of
           InvalidBody m \<Rightarrow> (Inl (GoMarketAPIError (''Invalid JSON response: '' @ m)), c)
         | JsonBody data \<Rightarrow> (Inr data, c)))"

text \<open>
  \<open>_make_request\<close>.  \<open>env n\<close> is what the attempt with \<open>retry_count = n\<close> meets.  The
  handler of \<open>aiohttp.ClientError\<close> retries; the handler of \<open>Exception\<close> takes every other
  exception raised under \<open>try\<close>, those of \<open>handle_response\<close> included.
\<close>

function make_request ::
  "GoMarketClient \<Rightarrow> (nat \<Rightarrow> attempt) \<Rightarrow> nat \<Rightarrow> (exn + string) \<times> GoMarketClient" where
  "make_request c env retry_count =
     (let c1 = rate_limit c (clock_first (env retry_count)) (clock_second (env retry_count));
          c2 = c1\<lparr> requests_made := requests_made c1 + 1 \<rparr>;
          (outcome, c3) = (case transport (env retry_count) of
                             Raises_ClientError m \<Rightarrow> (Inl (ClientError m), c2)
                           | Response response \<Rightarrow> handle_response c2 response)
      in case outcome of
           Inr data \<Rightarrow> (Inr data, c3)
         | Inl (ClientError m) \<Rightarrow>
             if retry_count < retry_attempts c then
               make_request (c3\<lparr> client_slept := client_slept c3 @ [2 ^ retry_count] \<rparr>)
                 env (retry_count + 1)
             else
               (Inl (GoMarketAPIError (''Network error after '' @ str_nat (retry_attempts c)
                       @ '' retries: '' @ m)), c3)
         | Inl e \<Rightarrow> (Inl (GoMarketAPIError (''Unexpected error: '' @ exn_str e)), c3))"
  by pat_completeness auto
termination
proof (relation "measure (\<lambda>(c, env, retry_count). retry_attempts c - retry_count)")
  show "wf (measure (\<lambda>(c, env, retry_count). retry_attempts c - retry_count))"
    by simp
next
  fix c :: GoMarketClient and env :: "nat \<Rightarrow> attempt" and retry_count :: nat
    and c1 c2 x outcome c3 e m
  assume "c1 = rate_limit c (clock_first (env retry_count)) (clock_second (env retry_count))"
    and "c2 = c1\<lparr> requests_made := requests_made c1 + 1 \<rparr>"
    and "x = (case transport (env retry_count) of
                Raises_ClientError m \<Rightarrow> (Inl (ClientError m), c2)
              | Response response \<Rightarrow> handle_response c2 response)"
    and "(outcome, c3) = x"
    and "outcome = Inl e" and "e = ClientError m"
    and "retry_count < retry_attempts c"
  then have "retry_attempts c3 = retry_attempts c"
    by (auto simp add: rate_limit_def handle_response_def Let_def
        split: transport_result.splits retry_after_header.splits response_body.splits if_splits)
  then show "((c3\<lparr> client_slept := client_slept c3 @ [2 ^ retry_count] \<rparr>, env, retry_count + 1),
              (c, env, retry_count))
             \<in> measure (\<lambda>(c, env, retry_count). retry_attempts c - retry_count)"
    using \<open>retry_count < retry_attempts c\<close> by simp
qed

section \<open>Constructors and example states\<close>

text \<open>\<open>WebSocketClient.__init__\<close>, \<open>start\<close> in polling mode, and \<open>ArbitrageService.__init__\<close>.\<close>

definition WebSocketClient_init :: "nat \<Rightarrow> nat \<Rightarrow> WebSocketClient" where
  "WebSocketClient_init delay attempts =
     \<lparr> reconnect_delay = delay, max_reconnect_attempts = attempts, websocket = NoSocket,
       is_connected = False, is_running = False, reconnect_count = 0, subscriptions = [],
       use_polling = False, polling_tasks = [], sent_messages = [], slept = [],
       delivered = [] \<rparr>"

definition ArbitrageService_init :: "DataStreamManager \<Rightarrow> ArbitrageService" where
  "ArbitrageService_init dsm =
     \<lparr> data_stream_manager = dsm, monitoring_sessions = [], active_monitoring_tasks = [],
       market_data_cache = [], opportunity_history = [], alert_cooldowns = [],
       alert_cooldown_minutes = 1, notification_callbacks = [], alerts = [] \<rparr>"

text \<open>A client that connected and entered its receive loop.\<close>

definition ex_client :: WebSocketClient where
  "ex_client = (snd (connect (WebSocketClient_init 5 1) True))\<lparr> is_running := True \<rparr>"

text \<open>Two callbacks on one key, in push mode and in polling mode.\<close>

definition ex_two_subscribers :: WebSocketClient where
  "ex_two_subscribers =
     subscribe (subscribe ex_client ''binance'' ''BTC/USDT'' 1) ''binance'' ''BTC/USDT'' 2"

definition ex_two_pollers :: WebSocketClient where
  "ex_two_pollers =
     subscribe (subscribe (ex_client\<lparr> use_polling := True \<rparr>) ''binance'' ''BTC/USDT'' 1)
       ''binance'' ''BTC/USDT'' 2"



text \<open>A service with one notification callback, two opportunities, and configurations.\<close>

definition ex_service :: ArbitrageService where
  "ex_service =
     (ArbitrageService_init \<lparr> websocket_client = ex_client, active_streams = [] \<rparr>)
       \<lparr> notification_callbacks := [9] \<rparr>"

definition ex_opportunity :: ArbitrageOpportunity where
  "ex_opportunity = \<lparr> opp_symbol = ''BTC/USDT'', buy_exchange = ''binance'',
      sell_exchange = ''okx'', buy_price = Fin 50001, sell_price = Fin 50050,
      spread_percentage = Fin (4900 / 50001), spread_absolute = Fin 49, opp_timestamp = 0,
      estimated_profit = None, trade_size = None \<rparr>"

definition ex_other_opportunity :: ArbitrageOpportunity where
  "ex_other_opportunity = \<lparr> opp_symbol = ''ETH/USDT'', buy_exchange = ''binance'',
      sell_exchange = ''okx'', buy_price = Fin 3000, sell_price = Fin 3003,
      spread_percentage = Fin 0.1, spread_absolute = Fin 3, opp_timestamp = 0,
      estimated_profit = None, trade_size = None \<rparr>"

definition ex_config :: "int \<Rightarrow> string list \<Rightarrow> MonitoringConfig" where
  "ex_config cid syms = \<lparr> chat_id = cid, symbols = syms, exchanges = [''binance'', ''okx''],
      threshold_percentage = Fin 0.5, cfg_is_active = True, update_interval = 5, created_at = 0,
      last_update = None \<rparr>"

definition ex_two_sessions :: ArbitrageService where
  "ex_two_sessions =
     start_monitoring (start_monitoring ex_service (ex_config 1 [''BTC/USDT'']) 0)
       (ex_config 2 [''ETH/USDT'']) 0"

definition ex_one_venue_cache :: "(string \<times> (string \<times> MarketData) list) list" where
  "ex_one_venue_cache = [(''BTC/USDT'', [(''binance'', ex_binance)])]"

text \<open>A client of the API and a server that answers 429 with \<open>Retry-After: 5\<close>.\<close>

definition ex_http_client :: GoMarketClient where
  "ex_http_client = \<lparr> rate_limit_delay = 1, last_request_time = 0, retry_attempts = 3,
      client_slept = [], requests_made = 0 \<rparr>"

definition ex_rate_limited :: "nat \<Rightarrow> attempt" where
  "ex_rate_limited n = \<lparr> clock_first = 100, clock_second = 100,
      transport = Response \<lparr> status = 429, retry_after = IntHeader 5, body_text = [],
        body = InvalidBody [] \<rparr> \<rparr>"

section \<open>The order of the floats\<close>

lemma flt_irrefl: "\<not> flt x x"
  by (cases x) simp_all

lemma flt_not_NaN: "flt x y \<Longrightarrow> x \<noteq> NaN \<and> y \<noteq> NaN"
  by (cases x; cases y) simp_all

lemma fle_not_NaN: "fle x y \<Longrightarrow> x \<noteq> NaN \<and> y \<noteq> NaN"
  by (cases x; cases y) simp_all

lemma fle_refl: "x \<noteq> NaN \<Longrightarrow> fle x x"
  by (cases x) simp_all

lemma flt_imp_fle: "flt x y \<Longrightarrow> fle x y"
  by (cases x; cases y) simp_all

lemma not_flt_fle: "x \<noteq> NaN \<Longrightarrow> y \<noteq> NaN \<Longrightarrow> \<not> flt x y \<Longrightarrow> fle y x"
  by (cases x; cases y) simp_all

lemma fle_trans: "fle x y \<Longrightarrow> fle y z \<Longrightarrow> fle x z"
  by (cases x; cases y; cases z) simp_all

lemma flt_fle_trans: "flt x y \<Longrightarrow> fle y z \<Longrightarrow> flt x z"
  by (cases x; cases y; cases z) simp_all

lemma fle_flt_trans: "fle x y \<Longrightarrow> flt y z \<Longrightarrow> flt x z"
  by (cases x; cases y; cases z) simp_all

lemma fle_antisym: "fle x y \<Longrightarrow> fle y x \<Longrightarrow> x = y"
  by (cases x; cases y) simp_all

lemma flt_neq: "flt x y \<Longrightarrow> x \<noteq> y"
  using flt_irrefl by auto

section \<open>The consolidated best bid and offer\<close>

lemma bbo_step_bid_price:
  "acc_bid_price (bbo_step item acc) =
     (if fgt (bid_price (snd item)) (acc_bid_price acc) then bid_price (snd item)
      else acc_bid_price acc)"
  by (simp add: bbo_step_def Let_def)

lemma bbo_step_bid_exchange:
  "acc_bid_exchange (bbo_step item acc) =
     (if fgt (bid_price (snd item)) (acc_bid_price acc) then fst item
      else acc_bid_exchange acc)"
  by (simp add: bbo_step_def Let_def)

lemma bbo_step_ask_price:
  "acc_ask_price (bbo_step item acc) =
     (if flt (ask_price (snd item)) (acc_ask_price acc) then ask_price (snd item)
      else acc_ask_price acc)"
  by (simp add: bbo_step_def Let_def)

lemma bbo_step_ask_exchange:
  "acc_ask_exchange (bbo_step item acc) =
     (if flt (ask_price (snd item)) (acc_ask_price acc) then fst item
      else acc_ask_exchange acc)"
  by (simp add: bbo_step_def Let_def)

text \<open>The best bid of the loop bounds the start value and every bid that is a number.\<close>

lemma bbo_loop_bid_bound:
  assumes "acc_bid_price acc \<noteq> NaN"
  shows "fle (acc_bid_price acc) (acc_bid_price (bbo_loop items acc))
       \<and> (\<forall>p \<in> set items. bid_price (snd p) \<noteq> NaN \<longrightarrow>
             fle (bid_price (snd p)) (acc_bid_price (bbo_loop items acc)))"
  using assms
proof (induction items arbitrary: acc)
  case Nil
  then show ?case by (simp add: fle_refl)
next
  case (Cons item items)
  let ?a = "bbo_step item acc"
  let ?B = "acc_bid_price (bbo_loop items ?a)"
  show ?case
  proof (cases "fgt (bid_price (snd item)) (acc_bid_price acc)")
    case True
    then have a: "acc_bid_price ?a = bid_price (snd item)"
      by (simp add: bbo_step_bid_price)
    then have "acc_bid_price ?a \<noteq> NaN"
      using True flt_not_NaN by auto
    from Cons.IH [OF this] have ih: "fle (bid_price (snd item)) ?B"
      "\<forall>p \<in> set items. bid_price (snd p) \<noteq> NaN \<longrightarrow> fle (bid_price (snd p)) ?B"
      using a by simp_all
    have "fle (acc_bid_price acc) ?B"
      using True ih(1) flt_fle_trans flt_imp_fle by blast
    then show ?thesis
      using ih by simp
  next
    case False
    then have a: "acc_bid_price ?a = acc_bid_price acc"
      by (simp add: bbo_step_bid_price)
    then have "acc_bid_price ?a \<noteq> NaN"
      using Cons.prems by simp
    from Cons.IH [OF this] have ih: "fle (acc_bid_price acc) ?B"
      "\<forall>p \<in> set items. bid_price (snd p) \<noteq> NaN \<longrightarrow> fle (bid_price (snd p)) ?B"
      using a by simp_all
    have "bid_price (snd item) \<noteq> NaN \<longrightarrow> fle (bid_price (snd item)) ?B"
      using False Cons.prems ih(1) not_flt_fle fle_trans by blast
    then show ?thesis
      using ih by simp
  qed
qed

text \<open>
  Where the best bid comes from: the start value when no bid beat it, otherwise the first
  snapshot that has the best bid.
\<close>

lemma bbo_loop_bid_exchange:
  assumes "acc_bid_price acc \<noteq> NaN"
  shows "(acc_bid_price (bbo_loop items acc) = acc_bid_price acc \<longrightarrow>
            acc_bid_exchange (bbo_loop items acc) = acc_bid_exchange acc)
       \<and> (acc_bid_price (bbo_loop items acc) \<noteq> acc_bid_price acc \<longrightarrow>
            map_option fst
              (find (\<lambda>p. bid_price (snd p) = acc_bid_price (bbo_loop items acc)) items)
              = Some (acc_bid_exchange (bbo_loop items acc)))"
  using assms
proof (induction items arbitrary: acc)
  case Nil
  then show ?case by simp
next
  case (Cons item items)
  let ?a = "bbo_step item acc"
  let ?B = "acc_bid_price (bbo_loop items ?a)"
  obtain e d where item: "item = (e, d)"
    by (cases item)
  show ?case
  proof (cases "fgt (bid_price (snd item)) (acc_bid_price acc)")
    case True
    then have a: "acc_bid_price ?a = bid_price d" "acc_bid_exchange ?a = e"
      by (simp_all add: bbo_step_bid_price bbo_step_bid_exchange item)
    have nn: "acc_bid_price ?a \<noteq> NaN"
      using True a flt_not_NaN item by auto
    have le: "fle (bid_price d) ?B"
      using bbo_loop_bid_bound [OF nn, of items] a by simp
    have neq: "?B \<noteq> acc_bid_price acc"
      using True le flt_fle_trans flt_neq item by fastforce
    show ?thesis
      using Cons.IH [OF nn] a neq by (auto simp add: item)
  next
    case False
    then have a: "acc_bid_price ?a = acc_bid_price acc"
      "acc_bid_exchange ?a = acc_bid_exchange acc"
      by (simp_all add: bbo_step_bid_price bbo_step_bid_exchange)
    have nn: "acc_bid_price ?a \<noteq> NaN"
      using a Cons.prems by simp
    have le: "fle (acc_bid_price acc) ?B"
      using bbo_loop_bid_bound [OF nn, of items] a by simp
    have "bid_price d \<noteq> ?B" if "?B \<noteq> acc_bid_price acc"
    proof
      assume eq: "bid_price d = ?B"
      then have "bid_price d \<noteq> NaN"
        using le fle_not_NaN by auto
      then have "fle (bid_price d) (acc_bid_price acc)"
        using False Cons.prems not_flt_fle item by auto
      then show False
        using eq le that fle_antisym by auto
    qed
    then show ?thesis
      using Cons.IH [OF nn] a by (auto simp add: item)
  qed
qed

text \<open>The same for the best ask, which goes down from its start value.\<close>

lemma bbo_loop_ask_bound:
  assumes "acc_ask_price acc \<noteq> NaN"
  shows "fle (acc_ask_price (bbo_loop items acc)) (acc_ask_price acc)
       \<and> (\<forall>p \<in> set items. ask_price (snd p) \<noteq> NaN \<longrightarrow>
             fle (acc_ask_price (bbo_loop items acc)) (ask_price (snd p)))"
  using assms
proof (induction items arbitrary: acc)
  case Nil
  then show ?case by (simp add: fle_refl)
next
  case (Cons item items)
  let ?a = "bbo_step item acc"
  let ?A = "acc_ask_price (bbo_loop items ?a)"
  show ?case
  proof (cases "flt (ask_price (snd item)) (acc_ask_price acc)")
    case True
    then have a: "acc_ask_price ?a = ask_price (snd item)"
      by (simp add: bbo_step_ask_price)
    then have "acc_ask_price ?a \<noteq> NaN"
      using True flt_not_NaN by auto
    from Cons.IH [OF this] have ih: "fle ?A (ask_price (snd item))"
      "\<forall>p \<in> set items. ask_price (snd p) \<noteq> NaN \<longrightarrow> fle ?A (ask_price (snd p))"
      using a by simp_all
    have "fle ?A (acc_ask_price acc)"
      using True ih(1) fle_flt_trans flt_imp_fle by blast
    then show ?thesis
      using ih by simp
  next
    case False
    then have a: "acc_ask_price ?a = acc_ask_price acc"
      by (simp add: bbo_step_ask_price)
    then have "acc_ask_price ?a \<noteq> NaN"
      using Cons.prems by simp
    from Cons.IH [OF this] have ih: "fle ?A (acc_ask_price acc)"
      "\<forall>p \<in> set items. ask_price (snd p) \<noteq> NaN \<longrightarrow> fle ?A (ask_price (snd p))"
      using a by simp_all
    have "ask_price (snd item) \<noteq> NaN \<longrightarrow> fle ?A (ask_price (snd item))"
      using False Cons.prems ih(1) not_flt_fle fle_trans by blast
    then show ?thesis
      using ih by simp
  qed
qed

lemma bbo_loop_ask_exchange:
  assumes "acc_ask_price acc \<noteq> NaN"
  shows "(acc_ask_price (bbo_loop items acc) = acc_ask_price acc \<longrightarrow>
            acc_ask_exchange (bbo_loop items acc) = acc_ask_exchange acc)
       \<and> (acc_ask_price (bbo_loop items acc) \<noteq> acc_ask_price acc \<longrightarrow>
            map_option fst
              (find (\<lambda>p. ask_price (snd p) = acc_ask_price (bbo_loop items acc)) items)
              = Some (acc_ask_exchange (bbo_loop items acc)))"
  using assms
proof (induction items arbitrary: acc)
  case Nil
  then show ?case by simp
next
  case (Cons item items)
  let ?a = "bbo_step item acc"
  let ?A = "acc_ask_price (bbo_loop items ?a)"
  obtain e d where item: "item = (e, d)"
    by (cases item)
  show ?case
  proof (cases "flt (ask_price (snd item)) (acc_ask_price acc)")
    case True
    then have a: "acc_ask_price ?a = ask_price d" "acc_ask_exchange ?a = e"
      by (simp_all add: bbo_step_ask_price bbo_step_ask_exchange item)
    have nn: "acc_ask_price ?a \<noteq> NaN"
      using True a flt_not_NaN item by auto
    have le: "fle ?A (ask_price d)"
      using bbo_loop_ask_bound [OF nn, of items] a by simp
    have neq: "?A \<noteq> acc_ask_price acc"
      using True le fle_flt_trans flt_neq item by fastforce
    show ?thesis
      using Cons.IH [OF nn] a neq by (auto simp add: item)
  next
    case False
    then have a: "acc_ask_price ?a = acc_ask_price acc"
      "acc_ask_exchange ?a = acc_ask_exchange acc"
      by (simp_all add: bbo_step_ask_price bbo_step_ask_exchange)
    have nn: "acc_ask_price ?a \<noteq> NaN"
      using a Cons.prems by simp
    have le: "fle ?A (acc_ask_price acc)"
      using bbo_loop_ask_bound [OF nn, of items] a by simp
    have "ask_price d \<noteq> ?A" if "?A \<noteq> acc_ask_price acc"
    proof
      assume eq: "ask_price d = ?A"
      then have "ask_price d \<noteq> NaN"
        using le fle_not_NaN by auto
      then have "fle (acc_ask_price acc) (ask_price d)"
        using False Cons.prems not_flt_fle item by auto
      then show False
        using eq le that fle_antisym by auto
    qed
    then show ?thesis
      using Cons.IH [OF nn] a by (auto simp add: item)
  qed
qed

text \<open>The best bid stays at its start value exactly when no bid is above it.\<close>

lemma bbo_loop_bid_stays:
  assumes "\<forall>p \<in> set items. \<not> fgt (bid_price (snd p)) (acc_bid_price acc)"
  shows "acc_bid_price (bbo_loop items acc) = acc_bid_price acc"
  using assms
proof (induction items arbitrary: acc)
  case Nil
  then show ?case by simp
next
  case (Cons item items)
  have a: "acc_bid_price (bbo_step item acc) = acc_bid_price acc"
    using Cons.prems by (simp add: bbo_step_bid_price)
  show ?case
    using Cons.IH [of "bbo_step item acc"] Cons.prems a by simp
qed

lemma bbo_loop_init_bid_zero:
  "acc_bid_price (bbo_loop items bbo_init) = Fin 0
     \<longleftrightarrow> (\<forall>p \<in> set items. \<not> fgt (bid_price (snd p)) (Fin 0))"
proof
  assume z: "acc_bid_price (bbo_loop items bbo_init) = Fin 0"
  show "\<forall>p \<in> set items. \<not> fgt (bid_price (snd p)) (Fin 0)"
  proof
    fix p
    assume p: "p \<in> set items"
    show "\<not> fgt (bid_price (snd p)) (Fin 0)"
    proof
      assume g: "fgt (bid_price (snd p)) (Fin 0)"
      then have "bid_price (snd p) \<noteq> NaN"
        using flt_not_NaN by auto
      then have "fle (bid_price (snd p)) (Fin 0)"
        using bbo_loop_bid_bound [of bbo_init items] p z by (simp add: bbo_init_def)
      then show False
        using g flt_fle_trans flt_irrefl by blast
    qed
  qed
next
  assume "\<forall>p \<in> set items. \<not> fgt (bid_price (snd p)) (Fin 0)"
  then show "acc_bid_price (bbo_loop items bbo_init) = Fin 0"
    using bbo_loop_bid_stays [of items bbo_init] by (simp add: bbo_init_def)
qed

text \<open>What \<open>consolidate_bbo\<close> returns once the best bid is not zero.\<close>

lemma consolidate_bbo_result:
  assumes "market_data \<noteq> []"
    and "acc_bid_price (bbo_loop market_data bbo_init) \<noteq> Fin 0"
  shows "consolidate_bbo symb market_data now =
     Inr \<lparr> cbbo_symbol = symb,
           best_bid_price = acc_bid_price (bbo_loop market_data bbo_init),
           best_bid_exchange = acc_bid_exchange (bbo_loop market_data bbo_init),
           best_ask_price = acc_ask_price (bbo_loop market_data bbo_init),
           best_ask_exchange = acc_ask_exchange (bbo_loop market_data bbo_init),
           mid_price = fdiv (fadd (acc_bid_price (bbo_loop market_data bbo_init))
                               (acc_ask_price (bbo_loop market_data bbo_init))) (Fin 2),
           cbbo_timestamp = now,
           cbbo_spread_absolute = fsub (acc_ask_price (bbo_loop market_data bbo_init))
                                    (acc_bid_price (bbo_loop market_data bbo_init)),
           cbbo_spread_percentage =
             fmul (fdiv (fsub (acc_ask_price (bbo_loop market_data bbo_init))
                              (acc_bid_price (bbo_loop market_data bbo_init)))
                        (acc_bid_price (bbo_loop market_data bbo_init))) (Fin 100),
           all_exchanges = acc_all_exchanges (bbo_loop market_data bbo_init) \<rparr>"
  using assms by (simp add: consolidate_bbo_def ConsolidatedBBO_init_def py_div_def Let_def)

lemma consolidate_bbo_zero_bid:
  assumes "market_data \<noteq> []"
    and "acc_bid_price (bbo_loop market_data bbo_init) = Fin 0"
  shows "consolidate_bbo symb market_data now = Inl ZeroDivisionError"
  using assms by (simp add: consolidate_bbo_def ConsolidatedBBO_init_def py_div_def Let_def)

text \<open>
  C1, as the code has it.  For a non-empty map of snapshots, each with a bid above zero
  and below its ask, and with at least one ask that is not infinite, \<open>consolidate_bbo\<close>
  returns a quote: its best bid is the maximum bid of the map (no bid is above it), at the
  first exchange in iteration order that has it; its best ask is the minimum ask (no ask is
  below it), at the first exchange that has it; the mid price is the sum of the two over 2;
  the absolute spread is ask minus bid; the percentage spread is the absolute spread over
  the best bid, times 100.
\<close>

theorem consolidate_bbo_finite_ask:
  assumes "market_data \<noteq> []"
    and "\<forall>p \<in> set market_data.
           fgt (bid_price (snd p)) (Fin 0) \<and> flt (bid_price (snd p)) (ask_price (snd p))"
    and "\<exists>p \<in> set market_data. ask_price (snd p) \<noteq> PInf"
  shows "\<exists>c. consolidate_bbo symb market_data now = Inr c
     \<and> (\<forall>p \<in> set market_data. fle (bid_price (snd p)) (best_bid_price c))
     \<and> map_option fst (find (\<lambda>p. bid_price (snd p) = best_bid_price c) market_data)
          = Some (best_bid_exchange c)
     \<and> (\<forall>p \<in> set market_data. fle (best_ask_price c) (ask_price (snd p)))
     \<and> map_option fst (find (\<lambda>p. ask_price (snd p) = best_ask_price c) market_data)
          = Some (best_ask_exchange c)
     \<and> mid_price c = fdiv (fadd (best_bid_price c) (best_ask_price c)) (Fin 2)
     \<and> cbbo_spread_absolute c = fsub (best_ask_price c) (best_bid_price c)
     \<and> cbbo_spread_percentage c
          = fmul (fdiv (cbbo_spread_absolute c) (best_bid_price c)) (Fin 100)"
proof -
  let ?acc = "bbo_loop market_data bbo_init"
  have bid_nn: "\<forall>p \<in> set market_data. bid_price (snd p) \<noteq> NaN"
    and ask_nn: "\<forall>p \<in> set market_data. ask_price (snd p) \<noteq> NaN"
    using assms(2) flt_not_NaN by blast+
  obtain p0 where p0: "p0 \<in> set market_data"
    using assms(1) by (cases market_data) auto
  have "fgt (bid_price (snd p0)) (Fin 0)"
    using assms(2) p0 by simp
  then have nz: "acc_bid_price ?acc \<noteq> Fin 0"
    using bbo_loop_init_bid_zero [of market_data] p0 by blast
  have bid_ub: "\<forall>p \<in> set market_data. fle (bid_price (snd p)) (acc_bid_price ?acc)"
    using bbo_loop_bid_bound [of bbo_init market_data] bid_nn by (simp add: bbo_init_def)
  have bid_ex: "map_option fst (find (\<lambda>p. bid_price (snd p) = acc_bid_price ?acc) market_data)
          = Some (acc_bid_exchange ?acc)"
    using bbo_loop_bid_exchange [of bbo_init market_data] nz by (simp add: bbo_init_def)
  have ask_lb: "\<forall>p \<in> set market_data. fle (acc_ask_price ?acc) (ask_price (snd p))"
    using bbo_loop_ask_bound [of bbo_init market_data] ask_nn by (simp add: bbo_init_def)
  obtain q where q: "q \<in> set market_data" "ask_price (snd q) \<noteq> PInf"
    using assms(3) by blast
  have "fle (acc_ask_price ?acc) (ask_price (snd q))"
    using ask_lb q(1) by simp
  then have "acc_ask_price ?acc \<noteq> PInf"
    using q(2) by (cases "ask_price (snd q)") auto
  then have ask_ex:
    "map_option fst (find (\<lambda>p. ask_price (snd p) = acc_ask_price ?acc) market_data)
          = Some (acc_ask_exchange ?acc)"
    using bbo_loop_ask_exchange [of bbo_init market_data] by (simp add: bbo_init_def)
  show ?thesis
    using bid_ub bid_ex ask_lb ask_ex
    by (simp add: consolidate_bbo_result [OF assms(1) nz])
qed

theorem consolidate_bbo_finite_ask_witness:
  "\<exists>c. consolidate_bbo ''BTC/USDT'' [(''binance'', ex_binance), (''okx'', ex_okx_low)] 0 = Inr c
     \<and> best_bid_price c = Fin 50000 \<and> best_bid_exchange c = ''binance''
     \<and> best_ask_price c = Fin 50000.5 \<and> best_ask_exchange c = ''okx''
     \<and> mid_price c = Fin 50000.25 \<and> cbbo_spread_absolute c = Fin 0.5
     \<and> cbbo_spread_percentage c = Fin 0.001"
proof -
  let ?md = "[(''binance'', ex_binance), (''okx'', ex_okx_low)]"
  have ne: "?md \<noteq> []"
    by simp
  have ok: "\<forall>p \<in> set ?md. fgt (bid_price (snd p)) (Fin 0)
              \<and> flt (bid_price (snd p)) (ask_price (snd p))"
    by (simp add: ex_binance_def ex_okx_low_def)
  have fin: "\<exists>p \<in> set ?md. ask_price (snd p) \<noteq> PInf"
    by (simp add: ex_binance_def)
  obtain c where c: "consolidate_bbo ''BTC/USDT'' ?md 0 = Inr c"
    and bid: "\<forall>p \<in> set ?md. fle (bid_price (snd p)) (best_bid_price c)"
    and bide: "map_option fst (find (\<lambda>p. bid_price (snd p) = best_bid_price c) ?md)
          = Some (best_bid_exchange c)"
    and ask: "\<forall>p \<in> set ?md. fle (best_ask_price c) (ask_price (snd p))"
    and aske: "map_option fst (find (\<lambda>p. ask_price (snd p) = best_ask_price c) ?md)
          = Some (best_ask_exchange c)"
    and rest: "mid_price c = fdiv (fadd (best_bid_price c) (best_ask_price c)) (Fin 2)"
      "cbbo_spread_absolute c = fsub (best_ask_price c) (best_bid_price c)"
      "cbbo_spread_percentage c
         = fmul (fdiv (cbbo_spread_absolute c) (best_bid_price c)) (Fin 100)"
    using consolidate_bbo_finite_ask [OF ne ok fin, of "''BTC/USDT''" 0] by blast
  have b: "best_bid_price c = Fin 50000 \<and> best_bid_exchange c = ''binance''"
    using bid bide
    by (cases "best_bid_price c") (auto simp add: ex_binance_def ex_okx_low_def split: if_splits)
  have a: "best_ask_price c = Fin 50000.5 \<and> best_ask_exchange c = ''okx''"
    using ask aske
    by (cases "best_ask_price c") (auto simp add: ex_binance_def ex_okx_low_def split: if_splits)
  show ?thesis
    using c b a rest by (simp add: fsub_def)
qed

text \<open>
  C1 as stated fails.  The snapshot of binance with bid 1 and an infinite ask passes the
  constructor and has its bid above zero and below its ask.  On the map that holds only
  this snapshot the minimum ask is the infinite one, at binance, but the quote names no
  exchange for the best ask: the ask is not below the start value of the loop.
\<close>

theorem infinite_ask_no_venue_counterexample:
  "MarketData_post_init ex_no_ask = Inr ex_no_ask
   \<and> fgt (bid_price ex_no_ask) (Fin 0)
   \<and> flt (bid_price ex_no_ask) (ask_price ex_no_ask)
   \<and> consolidate_bbo ''BTC/USDT'' [(''binance'', ex_no_ask)] 0 =
       Inr \<lparr> cbbo_symbol = ''BTC/USDT'', best_bid_price = Fin 1,
             best_bid_exchange = ''binance'', best_ask_price = PInf, best_ask_exchange = [],
             mid_price = PInf, cbbo_timestamp = 0, cbbo_spread_absolute = PInf,
             cbbo_spread_percentage = PInf, all_exchanges = [''binance''] \<rparr>"
  by (simp add: MarketData_post_init_def consolidate_bbo_def ConsolidatedBBO_init_def
      bbo_step_def bbo_init_def py_div_def fsub_def ex_no_ask_def Let_def)

section \<open>The arbitrage scan\<close>

lemma spec_scan_Nil: "spec_scan [] th now = []"
  by (simp add: spec_scan_def)

lemma row_as_indices:
  "concat (map (\<lambda>j. g ((x # xs) ! j)) [Suc 0 ..< Suc (length xs)]) = concat (map g xs)"
proof -
  have "[Suc 0 ..< Suc (length xs)] = map Suc [0 ..< length xs]"
    by (simp only: map_Suc_upt)
  then have "map (\<lambda>j. g ((x # xs) ! j)) [Suc 0 ..< Suc (length xs)]
               = map (\<lambda>j. g (xs ! j)) [0 ..< length xs]"
    by (simp add: comp_def del: upt_Suc)
  also have "\<dots> = map g (map ((!) xs) [0 ..< length xs])"
    by (simp add: comp_def)
  also have "\<dots> = map g xs"
    by (simp only: map_nth)
  finally show ?thesis by simp
qed

lemma spec_scan_Cons:
  "spec_scan (x # xs) th now = spec_row x xs th now @ spec_scan xs th now"
proof -
  let ?cell = "\<lambda>ys i j. if spec_crossed (ys ! i) (ys ! j) th
                          then [spec_signal (ys ! i) (ys ! j) now] else []"
  let ?row = "\<lambda>ys i. concat (map (?cell ys i) [Suc i ..< length ys])"
  have "[0 ..< Suc (length xs)] = 0 # [Suc 0 ..< Suc (length xs)]"
    by (rule upt_conv_Cons) simp
  then have split: "[0 ..< length (x # xs)] = 0 # map Suc [0 ..< length xs]"
    by (simp only: length_Cons map_Suc_upt)
  have first: "?row (x # xs) 0 = spec_row x xs th now"
    using row_as_indices
      [of "\<lambda>sj. if spec_crossed x sj th then [spec_signal x sj now] else []" x xs]
    by (simp add: spec_row_def del: upt_Suc cong: if_cong)
  have later: "?row (x # xs) (Suc i) = ?row xs i" for i
  proof -
    have "[Suc (Suc i) ..< length (x # xs)] = map Suc [Suc i ..< length xs]"
      by (simp only: length_Cons map_Suc_upt)
    then show ?thesis by (simp add: comp_def del: upt_Suc cong: if_cong)
  qed
  have "spec_scan (x # xs) th now
          = concat (map (?row (x # xs)) (0 # map Suc [0 ..< length xs]))"
    unfolding spec_scan_def split ..
  also have "\<dots> = ?row (x # xs) 0
                    @ concat (map (\<lambda>i. ?row (x # xs) (Suc i)) [0 ..< length xs])"
    by (simp add: comp_def del: upt_Suc)
  also have "\<dots> = spec_row x xs th now @ concat (map (?row xs) [0 ..< length xs])"
    by (simp only: first later)
  finally show ?thesis by (simp add: spec_scan_def)
qed

text \<open>
  A crossed pair of constructed snapshots: the ask is a positive number and the bid is a
  larger number or infinite, so the division and the constructor of the signal raise
  nothing.
\<close>

lemma crossed_pair_shape:
  assumes "valid_MarketData di" and "valid_MarketData dj"
    and "flt (ask_price dj) (bid_price di)"
  shows "\<exists>a. ask_price dj = Fin a \<and> 0 < a
           \<and> (bid_price di = PInf \<or> (\<exists>b. bid_price di = Fin b \<and> a < b))"
  using assms
  by (cases "ask_price dj"; cases "bid_price di")
     (auto simp add: valid_MarketData_def MarketData_post_init_def split: if_splits)

lemma check_pair_valid:
  assumes "distinct (map fst md)" and "si \<in> set md" and "sj \<in> set md"
    and "valid_MarketData (snd si)" and "valid_MarketData (snd sj)"
  shows "check_pair md th now (fst si) (fst sj) =
           Inr (if spec_crossed si sj th then Some (spec_signal si sj now) else None)"
proof -
  have bi: "map_of md (fst si) = Some (snd si)" and bj: "map_of md (fst sj) = Some (snd sj)"
    using assms(1-3) by simp_all
  show ?thesis
  proof (cases "flt (ask_price (snd sj)) (bid_price (snd si))")
    case True
    obtain a where a: "ask_price (snd sj) = Fin a" "0 < a"
      and b: "bid_price (snd si) = PInf \<or> (\<exists>b. bid_price (snd si) = Fin b \<and> a < b)"
      using crossed_pair_shape [OF assms(4,5) True] by blast
    from b show ?thesis
    proof
      assume "bid_price (snd si) = PInf"
      then show ?thesis
        using a bi bj
        by (cases th)
           (auto simp add: check_pair_def spec_crossed_def spec_signal_def py_div_def
              fsub_def ArbitrageOpportunity_post_init_def Let_def)
    next
      assume "\<exists>b. bid_price (snd si) = Fin b \<and> a < b"
      then obtain b where "bid_price (snd si) = Fin b" "a < b"
        by blast
      then show ?thesis
        using a bi bj
        by (cases th)
           (auto simp add: check_pair_def spec_crossed_def spec_signal_def py_div_def
              fsub_def ArbitrageOpportunity_post_init_def Let_def divide_le_0_iff)
    qed
  next
    case False
    then show ?thesis
      using bi bj by (simp add: check_pair_def spec_crossed_def)
  qed
qed

lemma arb_inner_valid:
  assumes "distinct (map fst md)" and "si \<in> set md" and "set later \<subseteq> set md"
    and "\<forall>p \<in> set md. valid_MarketData (snd p)"
  shows "arb_inner md th now (fst si) (map fst later) acc = Inr (acc @ spec_row si later th now)"
  using assms(3)
proof (induction later arbitrary: acc)
  case Nil
  then show ?case by (simp add: spec_row_def)
next
  case (Cons sj later)
  have sj: "sj \<in> set md" and later: "set later \<subseteq> set md"
    using Cons.prems by simp_all
  have cp: "check_pair md th now (fst si) (fst sj) =
           Inr (if spec_crossed si sj th then Some (spec_signal si sj now) else None)"
    using assms(1,2,4) sj by (intro check_pair_valid) auto
  show ?case
    using Cons.IH [OF later] cp by (simp add: spec_row_def)
qed

lemma arb_outer_valid:
  assumes "distinct (map fst md)" and "\<forall>p \<in> set md. valid_MarketData (snd p)"
    and "set xs \<subseteq> set md"
  shows "arb_outer md th now (map fst xs) acc = Inr (acc @ spec_scan xs th now)"
  using assms(3)
proof (induction xs arbitrary: acc)
  case Nil
  then show ?case by (simp add: spec_scan_Nil)
next
  case (Cons si xs)
  have si: "si \<in> set md" and xs: "set xs \<subseteq> set md"
    using Cons.prems by simp_all
  show ?case
    using Cons.IH [OF xs] arb_inner_valid [OF assms(1) si xs assms(2)]
    by (simp add: spec_scan_Cons)
qed

text \<open>
  C4.  For every map of snapshots (a dictionary, so with distinct keys, of snapshots that
  passed their constructor) and every threshold, \<open>find_arbitrage_opportunities\<close> returns
  exactly the signals of the pairs (\<open>i\<close> in iteration order, \<open>j\<close> after \<open>i\<close>) where the
  ask of \<open>j\<close> is below the bid of \<open>i\<close> and the spread over that ask, times 100, reaches the
  threshold; each signal buys at \<open>j\<close> for its ask and sells at \<open>i\<close> for its bid.
\<close>

theorem find_arbitrage_opportunities_exact:
  assumes "distinct (map fst snapshots)"
    and "\<forall>p \<in> set snapshots. valid_MarketData (snd p)"
  shows "find_arbitrage_opportunities snapshots threshold now =
           Inr (spec_scan snapshots threshold now)"
  using arb_outer_valid [OF assms, of snapshots threshold now "[]"]
  by (simp add: find_arbitrage_opportunities_def)

theorem find_arbitrage_opportunities_exact_witness:
  "find_arbitrage_opportunities [(''okx'', ex_okx_high), (''binance'', ex_binance)]
       (Fin 0.05) 7 =
     Inr [\<lparr> opp_symbol = ''BTC/USDT'', buy_exchange = ''binance'', sell_exchange = ''okx'',
            buy_price = Fin 50001, sell_price = Fin 50050,
            spread_percentage = Fin (4900 / 50001), spread_absolute = Fin 49,
            opp_timestamp = 7, estimated_profit = None, trade_size = None \<rparr>]"
proof -
  let ?md = "[(''okx'', ex_okx_high), (''binance'', ex_binance)]"
  have d: "distinct (map fst ?md)"
    by simp
  have v: "\<forall>p \<in> set ?md. valid_MarketData (snd p)"
    by (simp add: valid_MarketData_def MarketData_post_init_def ex_okx_high_def ex_binance_def)
  have "spec_scan ?md (Fin 0.05) 7 =
     [\<lparr> opp_symbol = ''BTC/USDT'', buy_exchange = ''binance'', sell_exchange = ''okx'',
            buy_price = Fin 50001, sell_price = Fin 50050,
            spread_percentage = Fin (4900 / 50001), spread_absolute = Fin 49,
            opp_timestamp = 7, estimated_profit = None, trade_size = None \<rparr>]"
    by (simp add: spec_scan_def spec_crossed_def spec_signal_def fsub_def ex_okx_high_def
        ex_binance_def upt_conv_Cons)
  then show ?thesis
    using find_arbitrage_opportunities_exact [OF d v, of "Fin 0.05" 7] by simp
qed

text \<open>
  C3.  On the map binance (bid 50000, ask 50001), okx (bid 50050, ask 50051), iterated in
  that order, with threshold 0.05, the scan returns no signal: the only pair it looks at
  compares the ask of okx with the bid of binance.
\<close>

theorem arbitrage_example_no_signal:
  "find_arbitrage_opportunities [(''binance'', ex_binance), (''okx'', ex_okx_high)]
     (Fin 0.05) 0 = Inr []"
  by (simp add: find_arbitrage_opportunities_def check_pair_def ex_binance_def ex_okx_high_def)

section \<open>Subscriptions and the transport\<close>

lemma unsubscribe_subscriptions:
  "map_of (subscriptions (unsubscribe ws exch symb)) =
     (map_of (subscriptions ws))(subscription_key exch symb := None)"
  by (auto simp add: unsubscribe_def Let_def delete_conv')

text \<open>
  C2, as the code has it.  One call of \<open>unsubscribe\<close> for a key removes the key with all
  of its callbacks, however many were registered: no count is kept and no single
  subscriber is removed.  When the key was subscribed, its polling task is removed in the
  same call.  Afterwards neither a pushed update nor a turn of a polling worker for that
  key invokes any callback.  The other keys keep their callbacks and tasks.
\<close>

theorem unsubscribe_removes_all:
  "map_of (subscriptions (unsubscribe ws exch symb)) =
     (map_of (subscriptions ws))(subscription_key exch symb := None)
   \<and> map_of (polling_tasks (unsubscribe ws exch symb)) =
     (if map_of (subscriptions ws) (subscription_key exch symb) = None
      then map_of (polling_tasks ws)
      else (map_of (polling_tasks ws))(subscription_key exch symb := None))
   \<and> delivered (notify_callbacks (unsubscribe ws exch symb) (subscription_key exch symb) md)
       = delivered ws
   \<and> delivered (poll_worker_step (unsubscribe ws exch symb) (subscription_key exch symb) fetched)
       = delivered ws"
proof -
  let ?k = "subscription_key exch symb"
  let ?ws = "unsubscribe ws exch symb"
  have s: "map_of (subscriptions ?ws) ?k = None"
    by (simp add: unsubscribe_subscriptions)
  have d: "delivered ?ws = delivered ws"
    by (simp add: unsubscribe_def Let_def)
  have p: "map_of (polling_tasks ?ws) =
     (if map_of (subscriptions ws) ?k = None then map_of (polling_tasks ws)
      else (map_of (polling_tasks ws))(?k := None))"
    by (auto simp add: unsubscribe_def Let_def delete_conv')
  have n: "delivered (notify_callbacks ?ws ?k md) = delivered ws"
    using s d by (simp add: notify_callbacks_def)
  have w: "delivered (poll_worker_step ?ws ?k fetched) = delivered ws"
    using s d by (simp add: poll_worker_step_def split: option.splits)
  show ?thesis
    using unsubscribe_subscriptions p n w by blast
qed

text \<open>
  C2 as stated fails.  Two callbacks are registered on \<open>binance:BTC/USDT\<close> and an update
  reaches both.  After one \<open>unsubscribe\<close> the key is gone, an update reaches neither, and
  in polling mode the polling task is gone as well.
\<close>

theorem unsubscribe_keeps_one_counterexample:
  "map_of (subscriptions ex_two_subscribers) ''binance:BTC/USDT'' = Some [1, 2]
   \<and> delivered (handle_websocket_message ex_two_subscribers (Some ex_binance))
       = [(1, ex_binance), (2, ex_binance)]
   \<and> map_of (subscriptions (unsubscribe ex_two_subscribers ''binance'' ''BTC/USDT''))
       ''binance:BTC/USDT'' = None
   \<and> delivered (handle_websocket_message
         (unsubscribe ex_two_subscribers ''binance'' ''BTC/USDT'') (Some ex_binance)) = []
   \<and> map_of (subscriptions ex_two_pollers) ''binance:BTC/USDT'' = Some [1, 2]
   \<and> polling_tasks (unsubscribe ex_two_pollers ''binance'' ''BTC/USDT'') = []
   \<and> delivered (poll_worker_step (unsubscribe ex_two_pollers ''binance'' ''BTC/USDT'')
         ''binance:BTC/USDT'' (Some ex_binance)) = []"
  by (simp add: ex_two_subscribers_def ex_two_pollers_def ex_client_def
      WebSocketClient_init_def connect_def subscribe_def
      unsubscribe_def subscription_key_def send_subscription_message_def start_polling_def
      handle_websocket_message_def notify_callbacks_def poll_worker_step_def ex_binance_def
      Let_def)

subsection \<open>Reconnection\<close>

lemma reconnect_degrade:
  "max_reconnect_attempts ws \<le> reconnect_count ws \<Longrightarrow>
   reconnect ws ok = (None, ws\<lparr> use_polling := True, is_running := True \<rparr>)"
  by (simp add: reconnect_def)

lemma send_subscription_message_polling_tasks:
  "polling_tasks (send_subscription_message ws e s) = polling_tasks ws"
  by (simp add: send_subscription_message_def)

lemma resubscribe_polling_tasks:
  "polling_tasks (snd (resubscribe ws keys)) = polling_tasks ws"
proof (induction ws keys rule: resubscribe.induct)
  case (1 ws)
  then show ?case by simp
next
  case (2 ws key keys)
  then show ?case
    by (auto simp add: send_subscription_message_polling_tasks split: list.splits)
qed

lemma reconnect_polling_tasks:
  "polling_tasks (snd (reconnect ws ok)) = polling_tasks ws"
  by (simp add: reconnect_def connect_def Let_def resubscribe_polling_tasks)


section \<open>Alert cooldown\<close>

lemma process_opportunity_accept:
  assumes "\<not> is_alert_cooldown_active svc (opportunity_key opp) now_check"
  shows "process_opportunity svc cid opp now_check now_fire =
     svc\<lparr> opportunity_history := opportunity_history svc @ [opp],
          alert_cooldowns := AList.update (opportunity_key opp) now_fire (alert_cooldowns svc),
          alerts := alerts svc @ map (\<lambda>cb. (cb, cid, opp)) (notification_callbacks svc) \<rparr>"
  using assms by (simp add: process_opportunity_def send_opportunity_alert_def Let_def)

lemma process_opportunity_suppress:
  assumes "is_alert_cooldown_active svc (opportunity_key opp) now_check"
  shows "process_opportunity svc cid opp now_check now_fire = svc"
  using assms by (simp add: process_opportunity_def)

lemma cooldown_active_iff:
  assumes "alert_cooldown_minutes svc = 1"
    and "map_of (alert_cooldowns svc) key = Some t"
  shows "is_alert_cooldown_active svc key now \<longleftrightarrow> now < t + 60000000"
  using assms by (simp add: is_alert_cooldown_active_def timedelta_minutes_def)

text \<open>
  One call keeps the firing time of a key, unless it is a call for that key at or after
  the end of its window.
\<close>

lemma process_opportunity_keeps_firing_time:
  assumes "alert_cooldown_minutes svc = 1"
    and "map_of (alert_cooldowns svc) key = Some t"
    and "opportunity_key opp = key \<longrightarrow> now_check < t + 60000000"
  shows "alert_cooldown_minutes (process_opportunity svc cid opp now_check now_fire) = 1
       \<and> map_of (alert_cooldowns (process_opportunity svc cid opp now_check now_fire)) key
           = Some t
       \<and> notification_callbacks (process_opportunity svc cid opp now_check now_fire)
           = notification_callbacks svc"
proof (cases "is_alert_cooldown_active svc (opportunity_key opp) now_check")
  case True
  then show ?thesis
    using assms(1,2) by (simp add: process_opportunity_suppress)
next
  case False
  have "opportunity_key opp \<noteq> key"
  proof
    assume k: "opportunity_key opp = key"
    then have "is_alert_cooldown_active svc (opportunity_key opp) now_check"
      using cooldown_active_iff [OF assms(1,2)] assms(3) by simp
    then show False
      using False by simp
  qed
  then show ?thesis
    using assms(1,2) by (simp add: process_opportunity_accept [OF False] update_conv')
qed

text \<open>The same through any number of calls.\<close>

lemma process_all_keeps_firing_time:
  assumes "alert_cooldown_minutes svc = 1"
    and "map_of (alert_cooldowns svc) key = Some t"
    and "\<forall>call \<in> set calls. opportunity_key (fst (snd call)) = key \<longrightarrow>
           fst (snd (snd call)) < t + 60000000"
  shows "alert_cooldown_minutes (process_all svc calls) = 1
       \<and> map_of (alert_cooldowns (process_all svc calls)) key = Some t
       \<and> notification_callbacks (process_all svc calls) = notification_callbacks svc"
  using assms
proof (induction svc calls rule: process_all.induct)
  case (1 svc)
  then show ?case by simp
next
  case (2 svc cid opp now_check now_fire calls)
  let ?svc = "process_opportunity svc cid opp now_check now_fire"
  have k: "opportunity_key opp = key \<longrightarrow> now_check < t + 60000000"
    using "2.prems"(3) by simp
  have step: "alert_cooldown_minutes ?svc = 1"
    "map_of (alert_cooldowns ?svc) key = Some t"
    "notification_callbacks ?svc = notification_callbacks svc"
    using process_opportunity_keeps_firing_time [OF "2.prems"(1,2) k] by simp_all
  have rest: "\<forall>call \<in> set calls. opportunity_key (fst (snd call)) = key \<longrightarrow>
           fst (snd (snd call)) < t + 60000000"
    using "2.prems"(3) by simp
  show ?case
    using "2.IH" [OF step(1,2) rest] step(3) by simp
qed

lemma accept_sets_firing_time:
  assumes "\<not> is_alert_cooldown_active svc (opportunity_key opp) t0"
    and "alert_cooldown_minutes svc = 1"
  shows "alert_cooldown_minutes (process_opportunity svc cid opp t0 t) = 1
       \<and> map_of (alert_cooldowns (process_opportunity svc cid opp t0 t)) (opportunity_key opp)
           = Some t
       \<and> notification_callbacks (process_opportunity svc cid opp t0 t)
           = notification_callbacks svc"
  using assms(2) by (simp add: process_opportunity_accept [OF assms(1)] update_conv')

text \<open>A text without a colon ends at the first colon of what it starts.\<close>

lemma split_at_colon:
  assumes "CHR '':'' \<notin> set x" and "CHR '':'' \<notin> set y"
    and "x @ CHR '':'' # u = y @ CHR '':'' # v"
  shows "x = y \<and> u = v"
  using assms
proof (induction x arbitrary: y)
  case Nil
  then show ?case by (cases y) auto
next
  case (Cons c x)
  then show ?case by (cases y) auto
qed

text \<open>
  The key names the symbol and the two exchanges, and nothing else: keys of opportunities
  whose exchange names have no colon are equal exactly when the three agree.
\<close>

lemma opportunity_key_inject:
  assumes "CHR '':'' \<notin> set (buy_exchange a) \<union> set (sell_exchange a)"
    and "CHR '':'' \<notin> set (buy_exchange b) \<union> set (sell_exchange b)"
  shows "opportunity_key a = opportunity_key b \<longleftrightarrow>
           opp_symbol a = opp_symbol b \<and> buy_exchange a = buy_exchange b
           \<and> sell_exchange a = sell_exchange b"
proof
  assume "opportunity_key a = opportunity_key b"
  then have "rev (opportunity_key a) = rev (opportunity_key b)"
    by simp
  then have r: "rev (sell_exchange a) @ CHR '':'' # (rev (buy_exchange a) @ CHR '':'' # rev (opp_symbol a))
      = rev (sell_exchange b) @ CHR '':'' # (rev (buy_exchange b) @ CHR '':'' # rev (opp_symbol b))"
    by (simp add: opportunity_key_def)
  have s: "rev (sell_exchange a) = rev (sell_exchange b)"
    and r2: "rev (buy_exchange a) @ CHR '':'' # rev (opp_symbol a)
             = rev (buy_exchange b) @ CHR '':'' # rev (opp_symbol b)"
    using split_at_colon [OF _ _ r] assms by simp_all
  have "rev (buy_exchange a) = rev (buy_exchange b) \<and> rev (opp_symbol a) = rev (opp_symbol b)"
    using split_at_colon [OF _ _ r2] assms by simp
  then show "opp_symbol a = opp_symbol b \<and> buy_exchange a = buy_exchange b
           \<and> sell_exchange a = sell_exchange b"
    using s by simp
next
  assume "opp_symbol a = opp_symbol b \<and> buy_exchange a = buy_exchange b
           \<and> sell_exchange a = sell_exchange b"
  then show "opportunity_key a = opportunity_key b"
    by (simp add: opportunity_key_def)
qed

text \<open>
  C5.  A signal is accepted and its firing time \<open>t\<close> recorded.  Whatever calls follow,
  for any chats and any keys, as long as those with the same key come before \<open>t\<close> plus 60
  seconds: the recorded firing time of the key is still \<open>t\<close>; a signal with the same key
  processed at a time before \<open>t\<close> plus 60 seconds leaves the service as it is (nothing is
  emitted, nothing is appended to the history, the firing time stays); a signal with the
  same key processed at or after \<open>t\<close> plus 60 seconds is emitted to every notification
  callback, appended to the history, and the firing time of the key becomes the new time.
  The key stands for the symbol, the buying and the selling exchange: with exchange names
  free of colons, two keys are equal exactly when the three agree.
\<close>

theorem cooldown_window:
  assumes "alert_cooldown_minutes svc = 1"
    and "\<not> is_alert_cooldown_active svc (opportunity_key opp) t0"
    and "\<forall>call \<in> set between. opportunity_key (fst (snd call)) = opportunity_key opp \<longrightarrow>
           fst (snd (snd call)) < t + 60000000"
    and "opportunity_key opp' = opportunity_key opp"
  shows "map_of (alert_cooldowns (process_all (process_opportunity svc cid opp t0 t) between))
            (opportunity_key opp) = Some t
       \<and> (now_check < t + 60000000 \<longrightarrow>
            process_opportunity (process_all (process_opportunity svc cid opp t0 t) between)
                cid' opp' now_check now_fire
              = process_all (process_opportunity svc cid opp t0 t) between)
       \<and> (t + 60000000 \<le> now_check \<longrightarrow>
            alerts (process_opportunity
                      (process_all (process_opportunity svc cid opp t0 t) between)
                      cid' opp' now_check now_fire)
              = alerts (process_all (process_opportunity svc cid opp t0 t) between)
                  @ map (\<lambda>cb. (cb, cid', opp')) (notification_callbacks svc)
          \<and> opportunity_history (process_opportunity
                      (process_all (process_opportunity svc cid opp t0 t) between)
                      cid' opp' now_check now_fire)
              = opportunity_history (process_all (process_opportunity svc cid opp t0 t) between)
                  @ [opp']
          \<and> map_of (alert_cooldowns (process_opportunity
                      (process_all (process_opportunity svc cid opp t0 t) between)
                      cid' opp' now_check now_fire)) (opportunity_key opp')
              = Some now_fire)
       \<and> (CHR '':'' \<notin> set (buy_exchange a) \<union> set (sell_exchange a)
                        \<union> set (buy_exchange b) \<union> set (sell_exchange b) \<longrightarrow>
            (opportunity_key a = opportunity_key b \<longleftrightarrow>
               opp_symbol a = opp_symbol b \<and> buy_exchange a = buy_exchange b
               \<and> sell_exchange a = sell_exchange b))"
proof -
  let ?svc1 = "process_opportunity svc cid opp t0 t"
  let ?svc2 = "process_all ?svc1 between"
  note first = accept_sets_firing_time [OF assms(2,1), of cid t]
  have inv: "alert_cooldown_minutes ?svc2 = 1"
    "map_of (alert_cooldowns ?svc2) (opportunity_key opp) = Some t"
    "notification_callbacks ?svc2 = notification_callbacks svc"
    using process_all_keeps_firing_time [of ?svc1 "opportunity_key opp" t between]
      first assms(3) by simp_all
  have act: "is_alert_cooldown_active ?svc2 (opportunity_key opp') now_check
               \<longleftrightarrow> now_check < t + 60000000"
    using cooldown_active_iff [OF inv(1,2)] assms(4) by simp
  have early: "now_check < t + 60000000 \<Longrightarrow>
      process_opportunity ?svc2 cid' opp' now_check now_fire = ?svc2"
    using act by (simp add: process_opportunity_suppress)
  have late: "process_opportunity ?svc2 cid' opp' now_check now_fire =
      ?svc2\<lparr> opportunity_history := opportunity_history ?svc2 @ [opp'],
          alert_cooldowns := AList.update (opportunity_key opp') now_fire (alert_cooldowns ?svc2),
          alerts := alerts ?svc2 @ map (\<lambda>cb. (cb, cid', opp')) (notification_callbacks ?svc2) \<rparr>"
    if "t + 60000000 \<le> now_check"
    using act that by (intro process_opportunity_accept) simp
  have key: "CHR '':'' \<notin> set (buy_exchange a) \<union> set (sell_exchange a)
                        \<union> set (buy_exchange b) \<union> set (sell_exchange b) \<longrightarrow>
            (opportunity_key a = opportunity_key b \<longleftrightarrow>
               opp_symbol a = opp_symbol b \<and> buy_exchange a = buy_exchange b
               \<and> sell_exchange a = sell_exchange b)"
    using opportunity_key_inject [of a b] by simp
  have main: "map_of (alert_cooldowns ?svc2) (opportunity_key opp) = Some t
       \<and> (now_check < t + 60000000 \<longrightarrow>
            process_opportunity ?svc2 cid' opp' now_check now_fire = ?svc2)
       \<and> (t + 60000000 \<le> now_check \<longrightarrow>
            alerts (process_opportunity ?svc2 cid' opp' now_check now_fire)
              = alerts ?svc2 @ map (\<lambda>cb. (cb, cid', opp')) (notification_callbacks svc)
          \<and> opportunity_history (process_opportunity ?svc2 cid' opp' now_check now_fire)
              = opportunity_history ?svc2 @ [opp']
          \<and> map_of (alert_cooldowns (process_opportunity ?svc2 cid' opp' now_check now_fire))
                (opportunity_key opp')
              = Some now_fire)"
    using early late inv(2,3) by (simp add: update_conv')
  show ?thesis
    using main key by blast
qed

theorem cooldown_window_witness:
  "process_opportunity
       (process_all (process_opportunity ex_service 1 ex_opportunity 100 100)
          [(2, ex_other_opportunity, 1000, 1000)])
       1 ex_opportunity 59000100 59000100
     = process_all (process_opportunity ex_service 1 ex_opportunity 100 100)
          [(2, ex_other_opportunity, 1000, 1000)]
   \<and> alerts (process_opportunity
       (process_all (process_opportunity ex_service 1 ex_opportunity 100 100)
          [(2, ex_other_opportunity, 1000, 1000)])
       1 ex_opportunity 60000100 60000101)
     = [(9, 1, ex_opportunity), (9, 2, ex_other_opportunity), (9, 1, ex_opportunity)]
   \<and> map_of (alert_cooldowns (process_opportunity
       (process_all (process_opportunity ex_service 1 ex_opportunity 100 100)
          [(2, ex_other_opportunity, 1000, 1000)])
       1 ex_opportunity 60000100 60000101)) (opportunity_key ex_opportunity)
     = Some 60000101"
proof -
  let ?between = "[(2::int, ex_other_opportunity, 1000::int, 1000::int)]"
  have m: "alert_cooldown_minutes ex_service = 1"
    by (simp add: ex_service_def ArbitrageService_init_def)
  have n: "\<not> is_alert_cooldown_active ex_service (opportunity_key ex_opportunity) 100"
    by (simp add: is_alert_cooldown_active_def ex_service_def ArbitrageService_init_def)
  have b: "\<forall>call \<in> set ?between.
             opportunity_key (fst (snd call)) = opportunity_key ex_opportunity \<longrightarrow>
             fst (snd (snd call)) < 100 + 60000000"
    by simp
  have a: "alerts (process_all (process_opportunity ex_service 1 ex_opportunity 100 100) ?between)
             = [(9, 1, ex_opportunity), (9, 2, ex_other_opportunity)]"
    by (simp add: process_opportunity_def send_opportunity_alert_def
        is_alert_cooldown_active_def opportunity_key_def ex_service_def
        ArbitrageService_init_def ex_opportunity_def ex_other_opportunity_def Let_def)
  have c: "notification_callbacks ex_service = [9]"
    by (simp add: ex_service_def ArbitrageService_init_def)
  show ?thesis
    using cooldown_window [OF m n b refl, where now_check = 59000100 and cid = 1
          and cid' = 1 and now_fire = 59000100]
      cooldown_window [OF m n b refl, where now_check = 60000100 and cid = 1
          and cid' = 1 and now_fire = 60000101] a c
    by simp
qed

text \<open>
  C9.  The cooldown key has no owner in it: it stands for the symbol and the two
  exchanges only.  An opportunity is emitted for one owner at time \<open>t\<close>.  Whatever calls
  follow, for any owners and any keys, as long as those with the same key come before \<open>t\<close>
  plus 60 seconds: an opportunity with the same key processed for another owner before
  \<open>t\<close> plus 60 seconds emits nothing and appends nothing to the history.
\<close>

theorem cooldown_shared_across_owners:
  assumes "alert_cooldown_minutes svc = 1"
    and "\<not> is_alert_cooldown_active svc (opportunity_key opp) t0"
    and "\<forall>call \<in> set between. opportunity_key (fst (snd call)) = opportunity_key opp \<longrightarrow>
           fst (snd (snd call)) < t + 60000000"
    and "opportunity_key opp' = opportunity_key opp"
    and "now_check < t + 60000000"
  shows "alerts (process_opportunity svc owner opp t0 t)
           = alerts svc @ map (\<lambda>cb. (cb, owner, opp)) (notification_callbacks svc)
       \<and> alerts (process_opportunity
                   (process_all (process_opportunity svc owner opp t0 t) between)
                   other opp' now_check now_fire)
           = alerts (process_all (process_opportunity svc owner opp t0 t) between)
       \<and> opportunity_history (process_opportunity
                   (process_all (process_opportunity svc owner opp t0 t) between)
                   other opp' now_check now_fire)
           = opportunity_history (process_all (process_opportunity svc owner opp t0 t) between)
       \<and> (CHR '':'' \<notin> set (buy_exchange a) \<union> set (sell_exchange a)
                        \<union> set (buy_exchange b) \<union> set (sell_exchange b) \<longrightarrow>
            (opportunity_key a = opportunity_key b \<longleftrightarrow>
               opp_symbol a = opp_symbol b \<and> buy_exchange a = buy_exchange b
               \<and> sell_exchange a = sell_exchange b))"
proof -
  let ?svc1 = "process_opportunity svc owner opp t0 t"
  let ?svc2 = "process_all ?svc1 between"
  note first = accept_sets_firing_time [OF assms(2,1), of owner t]
  have inv: "alert_cooldown_minutes ?svc2 = 1"
    "map_of (alert_cooldowns ?svc2) (opportunity_key opp) = Some t"
    using process_all_keeps_firing_time [of ?svc1 "opportunity_key opp" t between]
      first assms(3) by simp_all
  have "is_alert_cooldown_active ?svc2 (opportunity_key opp') now_check"
    using cooldown_active_iff [OF inv] assms(4,5) by simp
  then have same: "process_opportunity ?svc2 other opp' now_check now_fire = ?svc2"
    by (rule process_opportunity_suppress)
  have key: "CHR '':'' \<notin> set (buy_exchange a) \<union> set (sell_exchange a)
                        \<union> set (buy_exchange b) \<union> set (sell_exchange b) \<longrightarrow>
            (opportunity_key a = opportunity_key b \<longleftrightarrow>
               opp_symbol a = opp_symbol b \<and> buy_exchange a = buy_exchange b
               \<and> sell_exchange a = sell_exchange b)"
    using opportunity_key_inject [of a b] by simp
  have main: "alerts ?svc1
           = alerts svc @ map (\<lambda>cb. (cb, owner, opp)) (notification_callbacks svc)
       \<and> alerts (process_opportunity ?svc2 other opp' now_check now_fire) = alerts ?svc2
       \<and> opportunity_history (process_opportunity ?svc2 other opp' now_check now_fire)
           = opportunity_history ?svc2"
    using same by (simp add: process_opportunity_accept [OF assms(2)])
  show ?thesis
    using main key by blast
qed

theorem cooldown_shared_across_owners_witness:
  "alerts (process_opportunity
       (process_all (process_opportunity ex_service 1 ex_opportunity 100 100)
          [(3, ex_other_opportunity, 1000, 1000)])
       2 ex_opportunity 30000000 30000000)
     = [(9, 1, ex_opportunity), (9, 3, ex_other_opportunity)]
   \<and> opportunity_history (process_opportunity
       (process_all (process_opportunity ex_service 1 ex_opportunity 100 100)
          [(3, ex_other_opportunity, 1000, 1000)])
       2 ex_opportunity 30000000 30000000)
     = [ex_opportunity, ex_other_opportunity]"
proof -
  let ?between = "[(3::int, ex_other_opportunity, 1000::int, 1000::int)]"
  have m: "alert_cooldown_minutes ex_service = 1"
    by (simp add: ex_service_def ArbitrageService_init_def)
  have n: "\<not> is_alert_cooldown_active ex_service (opportunity_key ex_opportunity) 100"
    by (simp add: is_alert_cooldown_active_def ex_service_def ArbitrageService_init_def)
  have b: "\<forall>call \<in> set ?between.
             opportunity_key (fst (snd call)) = opportunity_key ex_opportunity \<longrightarrow>
             fst (snd (snd call)) < 100 + 60000000"
    by simp
  have l: "(30000000::int) < 100 + 60000000"
    by simp
  have a: "alerts (process_all (process_opportunity ex_service 1 ex_opportunity 100 100) ?between)
             = [(9, 1, ex_opportunity), (9, 3, ex_other_opportunity)]"
    "opportunity_history
       (process_all (process_opportunity ex_service 1 ex_opportunity 100 100) ?between)
             = [ex_opportunity, ex_other_opportunity]"
    by (simp_all add: process_opportunity_def send_opportunity_alert_def
        is_alert_cooldown_active_def opportunity_key_def ex_service_def
        ArbitrageService_init_def ex_opportunity_def ex_other_opportunity_def Let_def)
  show ?thesis
    using cooldown_shared_across_owners [OF m n b refl l, where owner = 1 and other = 2
          and now_fire = 30000000] a
    by simp
qed

section \<open>Starting a session twice\<close>

text \<open>
  C10.  \<open>start_monitoring\<close> for an owner that already has a session only stores the new
  configuration under that owner: the sessions of the other owners, the monitoring tasks
  and the whole data stream manager (subscriptions, polling tasks, streams) are unchanged.
\<close>

theorem start_monitoring_existing:
  assumes "map_of (monitoring_sessions svc) (chat_id cfg) = Some old"
  shows "start_monitoring svc cfg now =
           svc\<lparr> monitoring_sessions := AList.update (chat_id cfg) cfg (monitoring_sessions svc) \<rparr>
       \<and> map_of (monitoring_sessions (start_monitoring svc cfg now))
           = (map_of (monitoring_sessions svc))(chat_id cfg \<mapsto> cfg)
       \<and> active_monitoring_tasks (start_monitoring svc cfg now) = active_monitoring_tasks svc
       \<and> data_stream_manager (start_monitoring svc cfg now) = data_stream_manager svc"
  using assms by (simp add: start_monitoring_def update_conv')

theorem start_monitoring_existing_witness:
  "map_of (monitoring_sessions ex_two_sessions) 1 = Some (ex_config 1 [''BTC/USDT''])
   \<and> map_of (monitoring_sessions (start_monitoring ex_two_sessions (ex_config 1 [''SOL/USDT'']) 5))
        = (map_of (monitoring_sessions ex_two_sessions))(1 \<mapsto> ex_config 1 [''SOL/USDT''])
   \<and> active_monitoring_tasks (start_monitoring ex_two_sessions (ex_config 1 [''SOL/USDT'']) 5)
        = active_monitoring_tasks ex_two_sessions
   \<and> data_stream_manager (start_monitoring ex_two_sessions (ex_config 1 [''SOL/USDT'']) 5)
        = data_stream_manager ex_two_sessions"
proof -
  have s: "map_of (monitoring_sessions ex_two_sessions) (chat_id (ex_config 1 [''SOL/USDT'']))
             = Some (ex_config 1 [''BTC/USDT''])"
    by (simp add: ex_two_sessions_def start_monitoring_def ex_service_def ArbitrageService_init_def ex_config_def Let_def)
  have c: "chat_id (ex_config 1 [''SOL/USDT'']) = 1"
    by (simp add: ex_config_def)
  show ?thesis
    using start_monitoring_existing [OF s, of 5] s c by (simp add: update_conv')
qed

section \<open>Fewer than two exchanges\<close>

text \<open>
  C6 as stated fails.  On a map with the single exchange binance, \<open>consolidate_bbo\<close>
  raises nothing and returns a quote whose best bid and best ask both come from binance.
\<close>

theorem single_venue_quote_counterexample:
  "consolidate_bbo ''BTC/USDT'' [(''binance'', ex_binance)] 0 =
     Inr \<lparr> cbbo_symbol = ''BTC/USDT'', best_bid_price = Fin 50000,
           best_bid_exchange = ''binance'', best_ask_price = Fin 50001,
           best_ask_exchange = ''binance'', mid_price = Fin (100001 / 2),
           cbbo_timestamp = 0, cbbo_spread_absolute = Fin 1,
           cbbo_spread_percentage = Fin (1 / 500), all_exchanges = [''binance''] \<rparr>"
  by (simp add: consolidate_bbo_def ConsolidatedBBO_init_def bbo_step_def bbo_init_def
      py_div_def fsub_def ex_binance_def Let_def)

lemma consolidate_bbo_single:
  assumes "fgt (bid_price d) (Fin 0)" and "flt (bid_price d) (ask_price d)"
    and "ask_price d \<noteq> PInf"
  shows "consolidate_bbo symb [(e, d)] now =
     Inr \<lparr> cbbo_symbol = symb, best_bid_price = bid_price d, best_bid_exchange = e,
           best_ask_price = ask_price d, best_ask_exchange = e,
           mid_price = fdiv (fadd (bid_price d) (ask_price d)) (Fin 2),
           cbbo_timestamp = now,
           cbbo_spread_absolute = fsub (ask_price d) (bid_price d),
           cbbo_spread_percentage =
             fmul (fdiv (fsub (ask_price d) (bid_price d)) (bid_price d)) (Fin 100),
           all_exchanges = [e] \<rparr>"
  using assms
  by (cases "bid_price d"; cases "ask_price d")
     (simp_all add: consolidate_bbo_def ConsolidatedBBO_init_def bbo_step_def bbo_init_def
        py_div_def Let_def)

lemma consolidate_bbo_raises:
  assumes "market_data \<noteq> []"
  shows "(if \<exists>p \<in> set market_data. fgt (bid_price (snd p)) (Fin 0)
          then \<exists>c. consolidate_bbo symb market_data now = Inr c
          else consolidate_bbo symb market_data now = Inl ZeroDivisionError)"
proof (cases "\<exists>p \<in> set market_data. fgt (bid_price (snd p)) (Fin 0)")
  case True
  then have "acc_bid_price (bbo_loop market_data bbo_init) \<noteq> Fin 0"
    using bbo_loop_init_bid_zero [of market_data] by blast
  then show ?thesis
    using True consolidate_bbo_result [OF assms] by simp
next
  case False
  then have "acc_bid_price (bbo_loop market_data bbo_init) = Fin 0"
    using bbo_loop_init_bid_zero [of market_data] by blast
  then show ?thesis
    using False consolidate_bbo_zero_bid [OF assms] by simp
qed

lemma valid_bid_not_positive:
  assumes "valid_MarketData d" and "\<not> fgt (bid_price d) (Fin 0)"
  shows "bid_price d = NaN"
  using assms
  by (cases "bid_price d")
     (auto simp add: valid_MarketData_def MarketData_post_init_def split: if_splits)

text \<open>
  C6, as the code has it.  \<open>consolidate_bbo\<close> raises its error for missing data on the
  empty map only.  On a non-empty map, however few exchanges it has, it returns a quote as
  soon as one bid is above zero; otherwise the division by the best bid raises
  \<open>ZeroDivisionError\<close>, and a constructed snapshot whose bid is not above zero has the bid
  NaN.  On a map with one exchange, with a bid above zero and below a finite ask, that
  exchange supplies both sides of the quote.  The callers decide about two exchanges: with
  fewer than two fresh snapshots the arbitrage scan adds nothing for the symbol and the
  market view loop computes no quote, and neither raises.
\<close>

theorem insufficient_data_by_path:
  "consolidate_bbo symb [] now = Inl (ValueError ''Market data cannot be empty'')
   \<and> (market_data \<noteq> [] \<longrightarrow>
        (if \<exists>p \<in> set market_data. fgt (bid_price (snd p)) (Fin 0)
         then \<exists>c. consolidate_bbo symb market_data now = Inr c
         else consolidate_bbo symb market_data now = Inl ZeroDivisionError))
   \<and> (valid_MarketData d \<and> \<not> fgt (bid_price d) (Fin 0) \<longrightarrow> bid_price d = NaN)
   \<and> (fgt (bid_price d) (Fin 0) \<and> flt (bid_price d) (ask_price d) \<and> ask_price d \<noteq> PInf
        \<longrightarrow> (\<exists>c. consolidate_bbo symb [(e, d)] now = Inr c
               \<and> best_bid_exchange c = e \<and> best_ask_exchange c = e
               \<and> best_bid_price c = bid_price d \<and> best_ask_price c = ask_price d))
   \<and> (length (filter (\<lambda>item. is_fresh (snd item) 60 now)
          (filter (\<lambda>item. fst item \<in> set (exchanges cfg))
             (case map_of (market_data_cache svc) symb of None \<Rightarrow> [] | Some m \<Rightarrow> m))) < 2
        \<longrightarrow> check_symbol svc cfg now symb = [])
   \<and> (length (filter (\<lambda>item. is_fresh (snd item) (interval * 2) now)
          (filter (\<lambda>item. fst item \<in> set exchs)
             (case map_of cache symb of None \<Rightarrow> [] | Some m \<Rightarrow> m))) < 2
        \<longrightarrow> market_view_loop_cbbo cache symb exchs interval now = None)"
proof -
  have a: "consolidate_bbo symb [] now = Inl (ValueError ''Market data cannot be empty'')"
    by (simp add: consolidate_bbo_def)
  have b: "market_data \<noteq> [] \<longrightarrow>
        (if \<exists>p \<in> set market_data. fgt (bid_price (snd p)) (Fin 0)
         then \<exists>c. consolidate_bbo symb market_data now = Inr c
         else consolidate_bbo symb market_data now = Inl ZeroDivisionError)"
    using consolidate_bbo_raises by blast
  have n: "valid_MarketData d \<and> \<not> fgt (bid_price d) (Fin 0) \<longrightarrow> bid_price d = NaN"
    using valid_bid_not_positive by blast
  have s: "fgt (bid_price d) (Fin 0) \<and> flt (bid_price d) (ask_price d) \<and> ask_price d \<noteq> PInf
        \<longrightarrow> (\<exists>c. consolidate_bbo symb [(e, d)] now = Inr c
               \<and> best_bid_exchange c = e \<and> best_ask_exchange c = e
               \<and> best_bid_price c = bid_price d \<and> best_ask_price c = ask_price d)"
    by (simp add: consolidate_bbo_single)
  have c: "length (filter (\<lambda>item. is_fresh (snd item) 60 now)
          (filter (\<lambda>item. fst item \<in> set (exchanges cfg))
             (case map_of (market_data_cache svc) symb of None \<Rightarrow> [] | Some m \<Rightarrow> m))) < 2
        \<longrightarrow> check_symbol svc cfg now symb = []"
    by (simp add: check_symbol_def Let_def)
  have v: "length (filter (\<lambda>item. is_fresh (snd item) (interval * 2) now)
          (filter (\<lambda>item. fst item \<in> set exchs)
             (case map_of cache symb of None \<Rightarrow> [] | Some m \<Rightarrow> m))) < 2
        \<longrightarrow> market_view_loop_cbbo cache symb exchs interval now = None"
    by (simp add: market_view_loop_cbbo_def Let_def)
  show ?thesis
    using a b n s c v by blast
qed

theorem insufficient_data_by_path_witness:
  "(\<exists>c. consolidate_bbo ''BTC/USDT'' [(''binance'', ex_binance), (''okx'', ex_okx_low)] 0
          = Inr c)
   \<and> consolidate_bbo ''BTC/USDT'' [(''binance'', ex_nan_bid)] 0 = Inl ZeroDivisionError
   \<and> valid_MarketData ex_nan_bid \<and> bid_price ex_nan_bid = NaN
   \<and> (\<exists>c. consolidate_bbo ''BTC/USDT'' [(''binance'', ex_binance)] 0 = Inr c
          \<and> best_bid_exchange c = ''binance'' \<and> best_ask_exchange c = ''binance'')
   \<and> check_symbol (ex_service\<lparr> market_data_cache := ex_one_venue_cache \<rparr>)
        (ex_config 1 [''BTC/USDT'']) 0 ''BTC/USDT'' = []
   \<and> market_view_loop_cbbo ex_one_venue_cache ''BTC/USDT'' [''binance'', ''okx''] 5 0 = None"
proof -
  let ?two = "[(''binance'', ex_binance), (''okx'', ex_okx_low)]"
  let ?nan = "[(''binance'', ex_nan_bid)]"
  let ?svc = "ex_service\<lparr> market_data_cache := ex_one_venue_cache \<rparr>"
  let ?cfg = "ex_config 1 [''BTC/USDT'']"
  have v: "valid_MarketData ex_nan_bid"
    by (simp add: valid_MarketData_def MarketData_post_init_def ex_nan_bid_def)
  have nb: "\<not> fgt (bid_price ex_nan_bid) (Fin 0)"
    by (simp add: ex_nan_bid_def)
  have two: "?two \<noteq> [] \<and> (\<exists>p \<in> set ?two. fgt (bid_price (snd p)) (Fin 0))"
    by (simp add: ex_binance_def)
  have nan: "?nan \<noteq> [] \<and> \<not> (\<exists>p \<in> set ?nan. fgt (bid_price (snd p)) (Fin 0))"
    by (simp add: ex_nan_bid_def)
  have one: "fgt (bid_price ex_binance) (Fin 0)
      \<and> flt (bid_price ex_binance) (ask_price ex_binance) \<and> ask_price ex_binance \<noteq> PInf"
    by (simp add: ex_binance_def)
  have f1: "length (filter (\<lambda>item. is_fresh (snd item) 60 0)
            (filter (\<lambda>item. fst item \<in> set (exchanges ?cfg))
               (case map_of (market_data_cache ?svc) ''BTC/USDT'' of
                  None \<Rightarrow> [] | Some m \<Rightarrow> m))) < 2"
    by (simp add: ex_one_venue_cache_def ex_config_def)
  have f2: "length (filter (\<lambda>item. is_fresh (snd item) (5 * 2) 0)
            (filter (\<lambda>item. fst item \<in> set [''binance'', ''okx''])
               (case map_of ex_one_venue_cache ''BTC/USDT'' of
                  None \<Rightarrow> [] | Some m \<Rightarrow> m))) < 2"
    by (simp add: ex_one_venue_cache_def)
  have t1: "\<exists>c. consolidate_bbo ''BTC/USDT'' ?two 0 = Inr c"
    using two insufficient_data_by_path
      [where symb = "''BTC/USDT''" and now = 0 and market_data = ?two]
    by (simp only: if_True) blast
  have t2: "consolidate_bbo ''BTC/USDT'' ?nan 0 = Inl ZeroDivisionError"
    using nan insufficient_data_by_path
      [where symb = "''BTC/USDT''" and now = 0 and market_data = ?nan]
    by (simp only: if_False) blast
  have t3: "bid_price ex_nan_bid = NaN"
    using v nb insufficient_data_by_path [where d = ex_nan_bid] by blast
  have t4: "\<exists>c. consolidate_bbo ''BTC/USDT'' [(''binance'', ex_binance)] 0 = Inr c
          \<and> best_bid_exchange c = ''binance'' \<and> best_ask_exchange c = ''binance''"
    using one insufficient_data_by_path
      [where symb = "''BTC/USDT''" and now = 0 and d = ex_binance and e = "''binance''"]
    by blast
  have t5: "check_symbol ?svc ?cfg 0 ''BTC/USDT'' = []"
    using f1 insufficient_data_by_path
      [where symb = "''BTC/USDT''" and now = 0 and svc = ?svc and cfg = ?cfg]
    by blast
  have t6: "market_view_loop_cbbo ex_one_venue_cache ''BTC/USDT'' [''binance'', ''okx''] 5 0
              = None"
    using f2 insufficient_data_by_path
      [where symb = "''BTC/USDT''" and now = 0 and cache = ex_one_venue_cache
         and exchs = "[''binance'', ''okx'']" and interval = 5]
    by blast
  show ?thesis
    using t1 t2 v t3 t4 t5 t6 by blast
qed

section \<open>Rate limiting\<close>

declare make_request.simps [simp del]

lemma make_request_429:
  assumes "transport (env retry_count) = Response response"
    and "status response = 429"
    and "retry_after response = IntHeader n"
  shows "make_request c env retry_count =
     (Inl (GoMarketAPIError ''Unexpected error: Rate limit exceeded''),
      (rate_limit c (clock_first (env retry_count)) (clock_second (env retry_count)))
        \<lparr> requests_made :=
             Suc (requests_made (rate_limit c (clock_first (env retry_count))
                    (clock_second (env retry_count)))),
          client_slept :=
             client_slept (rate_limit c (clock_first (env retry_count))
                    (clock_second (env retry_count))) @ [real_of_int n] \<rparr>)"
  using assms
  by (subst make_request.simps) (simp add: handle_response_def Let_def)

text \<open>
  C7.  The server answers 429 with \<open>Retry-After: 5\<close>.  \<open>_make_request\<close> sleeps 5
  seconds and sends the request once, but the \<open>RateLimitError\<close> it raises is taken by
  its own handler of \<open>Exception\<close>: the caller gets a \<open>GoMarketAPIError\<close> with the text
  ``Unexpected error: Rate limit exceeded''.
\<close>

theorem rate_limit_surfaces_generic_error:
  "make_request ex_http_client ex_rate_limited 0 =
     (Inl (GoMarketAPIError ''Unexpected error: Rate limit exceeded''),
      \<lparr> rate_limit_delay = 1, last_request_time = 100, retry_attempts = 3,
        client_slept = [5], requests_made = 1 \<rparr>)"
  by (subst make_request.simps)
     (simp add: handle_response_def rate_limit_def ex_http_client_def ex_rate_limited_def Let_def)

end
